theory Spec2Isabelle
  imports Main
begin

section \<open>Attestation verification: trust-root selection and batch verification\<close>

text \<open>
  A shallow embedding of package \<open>verification\<close> (file \<open>sigstore.go\<close>):
  \<open>chooseVerifier\<close>, \<open>Verify\<close>, \<open>newCustomVerifier\<close>, \<open>newGitHubVerifier\<close> and
  \<open>newPublicGoodVerifier\<close>.

  Conventions of the embedding.
  \<^item> A Go \<open>error\<close> is its message, a \<open>string\<close>; a function returning \<open>(T, error)\<close>
    returns \<open>err + T\<close>, with \<open>Inl\<close> the error. \<open>fmt.Errorf\<close> with \<open>%v\<close> and \<open>%s\<close>
    is string concatenation.
  \<^item> The types and functions of \<open>sigstore-go\<close> (\<open>bundle\<close>, \<open>root\<close>, \<open>tuf\<close>, \<open>verify\<close>) are
    outside the package. A bundle is the data its accessors return; trusted roots, TUF
    clients, TUF options, verifiers, policies and verification results are type
    parameters; the library functions are the fields of a record \<open>sigstore_go\<close>, each a
    function of its arguments.
  \<^item> What the code does to the outside (the logger, the construction of a verifier,
    the call of \<open>verifier.Verify\<close>) is recorded, in program order, in a list of events
    returned next to the result.
  \<^item> Pointers (\<open>*api.Attestation\<close>, \<open>*bundle.ProtobufBundle\<close>, \<open>*io.Handler\<close>) are not
    nil. A nil slice is \<open>None\<close>, a slice that was made is \<open>Some\<close> of its elements.
\<close>

subsection \<open>Data\<close>

type_synonym err = string

definition PublicGoodIssuerOrg :: string where
  "PublicGoodIssuerOrg = ''sigstore.dev''"

definition GitHubIssuerOrg :: string where
  "GitHubIssuerOrg = ''GitHub, Inc.''"

text \<open>\<open>x509.Certificate\<close>, as far as the package reads it: \<open>leafCert.Issuer.Organization\<close>.\<close>

record pkix_name =
  Organization :: "string list"

record x509_certificate =
  Issuer :: pkix_name

text \<open>\<open>verify.VerificationContent\<close>: \<open>HasCertificate()\<close> returns the certificate and
  \<open>true\<close>, or \<open>false\<close>.\<close>

record verification_content =
  HasCertificate :: "x509_certificate option"

text \<open>\<open>bundle.ProtobufBundle\<close>: what \<open>VerificationContent()\<close> returns, and the rest of
  the bundle (signature, statement), which the package never reads.\<close>

record 'c ProtobufBundle =
  VerificationContent :: "err + verification_content"
  payload :: 'c

text \<open>\<open>api.Attestation\<close>.\<close>

record 'c attestation =
  Bundle :: "'c ProtobufBundle"

record ('c, 'r) AttestationProcessingResult =
  Attestation :: "'c attestation"
  VerificationResult :: "'r option"

record ('c, 'r) SigstoreResults =
  VerifyResults :: "('c, 'r) AttestationProcessingResult list option"
  Error :: "err option"

text \<open>\<open>SigstoreConfig\<close>. The field \<open>Logger\<close> is the event list.\<close>

record SigstoreConfig =
  CustomTrustedRoot :: string
  NoPublicGood :: bool

datatype VerifierOption =
    WithSignedCertificateTimestamps int
  | WithObserverTimestamps int
  | WithSignedTimestamps int
  | WithTransparencyLog int

text \<open>
  The library, and the two functions of this package that are defined in another file
  (\<open>GitHubTUFOptions\<close>, \<open>DefaultOptionsWithCacheSetting\<close>), as parameters.
  \<open>TimestampingAuthorities\<close> and \<open>RekorLogs\<close> give the length of the slice, the only
  thing the code reads of it.
\<close>

record ('root, 'tuf, 'opts, 'v, 'c, 'p, 'r) sigstore_go =
  NewTrustedRootFromPath :: "string \<Rightarrow> err + 'root"
  TimestampingAuthorities :: "'root \<Rightarrow> nat"
  RekorLogs :: "'root \<Rightarrow> nat"
  NewSignedEntityVerifier :: "'root \<Rightarrow> VerifierOption list \<Rightarrow> err + 'v"
  tuf_New :: "'opts \<Rightarrow> err + 'tuf"
  GetTrustedRoot :: "'tuf \<Rightarrow> err + 'root"
  GitHubTUFOptions :: 'opts
  DefaultOptionsWithCacheSetting :: 'opts
  SignedEntityVerifier_Verify :: "'v \<Rightarrow> 'c ProtobufBundle \<Rightarrow> 'p \<Rightarrow> err + 'r"

datatype fmt_arg = IntArg int | StrArg string

text \<open>
  The events: a call of the logger with its format string and arguments (\<open>Redf\<close> and
  \<open>Greenf\<close> are the colour functions applied to the message of \<open>VerbosePrint\<close>), the
  call of one of the three verifier constructors, and the call of \<open>verifier.Verify\<close>
  with its receiver and arguments.
\<close>

datatype ('v, 'c, 'p) event =
    VerbosePrintf string "fmt_arg list"
  | VerbosePrint_Redf string "fmt_arg list"
  | VerbosePrint_Greenf string "fmt_arg list"
  | Call_newCustomVerifier string
  | Call_newPublicGoodVerifier
  | Call_newGitHubVerifier
  | Call_Verify 'v "'c ProtobufBundle" 'p

definition dq :: string where
  "dq = [CHR 0x22]"

definition nl :: string where
  "nl = [CHR 0x0A]"

subsection \<open>The verifier constructors\<close>

definition newCustomVerifier ::
  "('root, 'tuf, 'opts, 'v, 'c, 'p, 'r) sigstore_go \<Rightarrow> string \<Rightarrow> err + 'v" where
  "newCustomVerifier L trustedRootFilePath =
     (case NewTrustedRootFromPath L trustedRootFilePath of
        Inl e \<Rightarrow>
          Inl (''failed to create trusted root from file '' @ trustedRootFilePath @ '': '' @ e)
      | Inr trustedRoot \<Rightarrow>
          (let verifierConfig0 = [WithSignedCertificateTimestamps 1, WithObserverTimestamps 1];
               verifierConfig1 =
                 (if TimestampingAuthorities L trustedRoot > 0
                  then verifierConfig0 @ [WithSignedTimestamps 1] else verifierConfig0);
               verifierConfig2 =
                 (if RekorLogs L trustedRoot > 0
                  then verifierConfig1 @ [WithTransparencyLog 1] else verifierConfig1)
           in case NewSignedEntityVerifier L trustedRoot verifierConfig2 of
                Inl e \<Rightarrow> Inl (''failed to create custom verifier: '' @ e)
              | Inr gv \<Rightarrow> Inr gv))"

definition newGitHubVerifier ::
  "('root, 'tuf, 'opts, 'v, 'c, 'p, 'r) sigstore_go \<Rightarrow> err + 'v" where
  "newGitHubVerifier L =
     (case tuf_New L (GitHubTUFOptions L) of
        Inl e \<Rightarrow> Inl (''failed to create TUF client: '' @ e)
      | Inr client \<Rightarrow>
          (case GetTrustedRoot L client of
             Inl e \<Rightarrow> Inl e
           | Inr trustedRoot \<Rightarrow>
               (case NewSignedEntityVerifier L trustedRoot [WithSignedTimestamps 1] of
                  Inl e \<Rightarrow> Inl (''failed to create GitHub verifier: '' @ e)
                | Inr gv \<Rightarrow> Inr gv)))"

definition newPublicGoodVerifier ::
  "('root, 'tuf, 'opts, 'v, 'c, 'p, 'r) sigstore_go \<Rightarrow> err + 'v" where
  "newPublicGoodVerifier L =
     (case tuf_New L (DefaultOptionsWithCacheSetting L) of
        Inl e \<Rightarrow> Inl (''failed to create TUF client: '' @ e)
      | Inr client \<Rightarrow>
          (case GetTrustedRoot L client of
             Inl e \<Rightarrow> Inl (''failed to get trusted root: '' @ e)
           | Inr trustedRoot \<Rightarrow>
               (case NewSignedEntityVerifier L trustedRoot
                       [WithSignedCertificateTimestamps 1, WithTransparencyLog 1,
                        WithObserverTimestamps 1] of
                  Inl e \<Rightarrow> Inl (''failed to create Public Good verifier: '' @ e)
                | Inr sv \<Rightarrow> Inr sv)))"

subsection \<open>chooseVerifier\<close>

text \<open>
  The result is the pair (verifier, issuer) or the error, and the events of the call:
  the constructor that was called, if one was.
\<close>

definition chooseVerifier ::
  "('root, 'tuf, 'opts, 'v, 'c, 'p, 'r) sigstore_go \<Rightarrow> SigstoreConfig \<Rightarrow> 'c ProtobufBundle
     \<Rightarrow> (err + 'v \<times> string) \<times> ('v, 'c, 'p) event list" where
  "chooseVerifier L config b =
     (case VerificationContent b of
        Inl e \<Rightarrow> (Inl (''failed to get bundle verification content: '' @ e), [])
      | Inr verifyContent \<Rightarrow>
     (case HasCertificate verifyContent of
        None \<Rightarrow> (Inl ''leaf cert not found'', [])
      | Some leafCert \<Rightarrow>
     if length (Organization (Issuer leafCert)) \<noteq> 1
     then (Inl ''expected the leaf certificate issuer to only have one organization'', [])
     else
       (let issuer = Organization (Issuer leafCert) ! 0 in
        if CustomTrustedRoot config \<noteq> []
        then
          (case newCustomVerifier L (CustomTrustedRoot config) of
             Inl e \<Rightarrow> (Inl (''failed to create custom verifier: '' @ e),
                        [Call_newCustomVerifier (CustomTrustedRoot config)])
           | Inr customVerifier \<Rightarrow> (Inr (customVerifier, issuer),
                        [Call_newCustomVerifier (CustomTrustedRoot config)]))
        else if Organization (Issuer leafCert) ! 0 = PublicGoodIssuerOrg
                \<and> \<not> NoPublicGood config
        then
          (case newPublicGoodVerifier L of
             Inl e \<Rightarrow> (Inl (''failed to create Public Good Sigstore verifier: '' @ e),
                        [Call_newPublicGoodVerifier])
           | Inr publicGoodVerifier \<Rightarrow> (Inr (publicGoodVerifier, issuer),
                        [Call_newPublicGoodVerifier]))
        else if Organization (Issuer leafCert) ! 0 = GitHubIssuerOrg
                \<or> NoPublicGood config
        then
          (case newGitHubVerifier L of
             Inl e \<Rightarrow> (Inl (''failed to create GitHub Sigstore verifier: '' @ e),
                        [Call_newGitHubVerifier])
           | Inr ghVerifier \<Rightarrow> (Inr (ghVerifier, issuer), [Call_newGitHubVerifier]))
        else (Inl ''leaf certificate issuer is not recognized'', []))))"

subsection \<open>Verify\<close>

text \<open>
  The second loop of \<open>Verify\<close>, over the result slots from index \<open>i\<close> on. \<open>Inl\<close> is the
  early return with its \<open>SigstoreResults\<close>; \<open>Inr\<close> is the end of the loop, with the
  slots as the assignments through the pointer \<open>apr\<close> have left them.
\<close>

fun verify_loop ::
  "('root, 'tuf, 'opts, 'v, 'c, 'p, 'r) sigstore_go \<Rightarrow> SigstoreConfig \<Rightarrow> 'p \<Rightarrow> nat \<Rightarrow> nat
     \<Rightarrow> ('c, 'r) AttestationProcessingResult list
     \<Rightarrow> (('c, 'r) SigstoreResults + ('c, 'r) AttestationProcessingResult list)
         \<times> ('v, 'c, 'p) event list" where
  "verify_loop L config policy totalAttestations i [] = (Inr [], [])"
| "verify_loop L config policy totalAttestations i (apr # rest) =
     (let ev0 = [VerbosePrintf
                  (''Verifying attestation %d/%d against the configured Sigstore trust roots''
                     @ nl)
                  [IntArg (int i + 1), IntArg (int totalAttestations)]]
      in case chooseVerifier L config (Bundle (Attestation apr)) of
        (Inl e, ev1) \<Rightarrow>
          (Inl \<lparr>VerifyResults = None,
                Error = Some (''failed to find recognized issuer from bundle content: '' @ e)\<rparr>,
           ev0 @ ev1)
      | (Inr (verifier, issuer), ev1) \<Rightarrow>
          (let ev2 = [VerbosePrintf
                       (''Attempting verification against issuer '' @ dq @ ''%s'' @ dq @ nl)
                       [StrArg issuer],
                      Call_Verify verifier (Bundle (Attestation apr)) policy]
           in case SignedEntityVerifier_Verify L verifier (Bundle (Attestation apr)) policy of
             Inl e \<Rightarrow>
               (Inl \<lparr>VerifyResults = None,
                     Error = Some (''verifying with issuer '' @ dq @ issuer @ dq @ '': '' @ e)\<rparr>,
                ev0 @ ev1 @ ev2 @
                [VerbosePrint_Redf
                   (''Failed to verify against issuer '' @ dq @ ''%s'' @ dq @ '' '' @ nl @ nl)
                   [StrArg issuer]])
           | Inr result \<Rightarrow>
               (let ev3 = [VerbosePrint_Greenf
                            (''SUCCESS - attestation signature verified with ''
                               @ dq @ ''%s'' @ dq @ nl)
                            [StrArg issuer]]
                in case verify_loop L config policy totalAttestations (i + 1) rest of
                  (Inl res, evs) \<Rightarrow> (Inl res, ev0 @ ev1 @ ev2 @ ev3 @ evs)
                | (Inr rest', evs) \<Rightarrow>
                    (Inr (apr\<lparr>VerificationResult := Some result\<rparr> # rest'),
                     ev0 @ ev1 @ ev2 @ ev3 @ evs))))"

definition Verify ::
  "('root, 'tuf, 'opts, 'v, 'c, 'p, 'r) sigstore_go \<Rightarrow> SigstoreConfig
     \<Rightarrow> 'c attestation list \<Rightarrow> 'p
     \<Rightarrow> ('c, 'r) SigstoreResults \<times> ('v, 'c, 'p) event list" where
  "Verify L config attestations policy =
     (let results = map (\<lambda>att. \<lparr>Attestation = att, VerificationResult = None\<rparr>) attestations;
          totalAttestations = length attestations
      in case verify_loop L config policy totalAttestations 0 results of
           (Inl res, evs) \<Rightarrow> (res, evs)
         | (Inr results', evs) \<Rightarrow> (\<lparr>VerifyResults = Some results', Error = None\<rparr>, evs))"


subsection \<open>Notions of the specification\<close>

text \<open>The three trust domains; each verifier constructor builds the verifier of one.\<close>

datatype trust_domain = PublicGood | GitHub | Custom

fun trust_domain_of :: "('v, 'c, 'p) event \<Rightarrow> trust_domain option" where
  "trust_domain_of (Call_newCustomVerifier path) = Some Custom"
| "trust_domain_of Call_newPublicGoodVerifier = Some PublicGood"
| "trust_domain_of Call_newGitHubVerifier = Some GitHub"
| "trust_domain_of (VerbosePrintf f as) = None"
| "trust_domain_of (VerbosePrint_Redf f as) = None"
| "trust_domain_of (VerbosePrint_Greenf f as) = None"
| "trust_domain_of (Call_Verify v b p) = None"

text \<open>The trust domains whose verifier was constructed, one entry for each construction,
  in program order.\<close>

definition materialized :: "('v, 'c, 'p) event list \<Rightarrow> trust_domain list" where
  "materialized evs = List.map_filter trust_domain_of evs"

fun verified_bundle :: "('v, 'c, 'p) event \<Rightarrow> 'c ProtobufBundle option" where
  "verified_bundle (Call_Verify v b p) = Some b"
| "verified_bundle (Call_newCustomVerifier path) = None"
| "verified_bundle Call_newPublicGoodVerifier = None"
| "verified_bundle Call_newGitHubVerifier = None"
| "verified_bundle (VerbosePrintf f as) = None"
| "verified_bundle (VerbosePrint_Redf f as) = None"
| "verified_bundle (VerbosePrint_Greenf f as) = None"

text \<open>The bundles passed to \<open>verifier.Verify\<close>, in program order.\<close>

definition verified_bundles :: "('v, 'c, 'p) event list \<Rightarrow> 'c ProtobufBundle list" where
  "verified_bundles evs = List.map_filter verified_bundle evs"

text \<open>
  The Issuer Resolver as the specification words it (section 4.1): MalformedBundle when
  the bundle carries no verification content or no certificate, AmbiguousIssuer when
  the issuer of the certificate declares zero or more than one organization, the single
  organization otherwise.
\<close>

datatype resolver_error = MalformedBundle | AmbiguousIssuer

definition spec_IssuerResolver :: "'c ProtobufBundle \<Rightarrow> resolver_error + string" where
  "spec_IssuerResolver b =
     (case VerificationContent b of
        Inl e \<Rightarrow> Inl MalformedBundle
      | Inr content \<Rightarrow>
          (case HasCertificate content of
             None \<Rightarrow> Inl MalformedBundle
           | Some cert \<Rightarrow>
               (case Organization (Issuer cert) of
                  [org] \<Rightarrow> Inr org
                | _ \<Rightarrow> Inl AmbiguousIssuer)))"

text \<open>The messages of \<open>chooseVerifier\<close> that belong to each class.\<close>

definition is_MalformedBundle :: "err \<Rightarrow> bool" where
  "is_MalformedBundle e \<longleftrightarrow>
     take 43 e = ''failed to get bundle verification content: '' \<or> e = ''leaf cert not found''"

definition is_AmbiguousIssuer :: "err \<Rightarrow> bool" where
  "is_AmbiguousIssuer e \<longleftrightarrow>
     e = ''expected the leaf certificate issuer to only have one organization''"

definition is_UnrecognizedIssuer :: "err \<Rightarrow> bool" where
  "is_UnrecognizedIssuer e \<longleftrightarrow> e = ''leaf certificate issuer is not recognized''"

text \<open>An attestation passes when a verifier is chosen for its bundle and that verifier
  verifies the bundle.\<close>

definition attestation_passes ::
  "('root, 'tuf, 'opts, 'v, 'c, 'p, 'r) sigstore_go \<Rightarrow> SigstoreConfig \<Rightarrow> 'p
     \<Rightarrow> 'c attestation \<Rightarrow> bool" where
  "attestation_passes L config policy att =
     (case fst (chooseVerifier L config (Bundle att)) of
        Inl e \<Rightarrow> False
      | Inr (verifier, issuer) \<Rightarrow>
          \<not> isl (SignedEntityVerifier_Verify L verifier (Bundle att) policy))"

text \<open>The index of the first attestation that does not pass (the length of the batch
  when all pass).\<close>

definition first_failure ::
  "('root, 'tuf, 'opts, 'v, 'c, 'p, 'r) sigstore_go \<Rightarrow> SigstoreConfig \<Rightarrow> 'p
     \<Rightarrow> 'c attestation list \<Rightarrow> nat" where
  "first_failure L config policy atts =
     length (takeWhile (attestation_passes L config policy) atts)"

text \<open>
  The Verifier Selector as the specification words it (section 4.2, rules 1 to 4), on
  the resolved issuer and the configuration; \<open>None\<close> is UnrecognizedIssuer.
\<close>

definition spec_VerifierSelector :: "SigstoreConfig \<Rightarrow> string \<Rightarrow> trust_domain option" where
  "spec_VerifierSelector config issuer =
     (if CustomTrustedRoot config \<noteq> [] then Some Custom
      else if issuer = ''sigstore.dev'' \<and> \<not> NoPublicGood config then Some PublicGood
      else if issuer = ''GitHub, Inc.'' \<or> NoPublicGood config then Some GitHub
      else None)"

text \<open>The trust domain the specification selects for a bundle: none when the issuer
  does not resolve.\<close>

definition spec_selection :: "SigstoreConfig \<Rightarrow> 'c ProtobufBundle \<Rightarrow> trust_domain option" where
  "spec_selection config b =
     (case spec_IssuerResolver b of
        Inl e \<Rightarrow> None
      | Inr issuer \<Rightarrow> spec_VerifierSelector config issuer)"


text \<open>
  The SigstoreResults of the specification (section 3): a non-empty result sequence and
  no error, or an error and no result sequence.
\<close>

definition SigstoreResults_exclusive :: "('c, 'r) SigstoreResults \<Rightarrow> bool" where
  "SigstoreResults_exclusive res =
     (case (VerifyResults res, Error res) of
        (Some rs, None) \<Rightarrow> rs \<noteq> []
      | (None, Some e) \<Rightarrow> True
      | (Some rs, Some e) \<Rightarrow> False
      | (None, None) \<Rightarrow> False)"


subsection \<open>Example inputs\<close>

definition example_library ::
  "(string, string, string, string \<times> VerifierOption list, string, string, string) sigstore_go"
  where
  "example_library =
     \<lparr>NewTrustedRootFromPath =
        (\<lambda>path. if path = ''trusted_root.json'' then Inr ''custom root''
                 else Inl ''no such file''),
      TimestampingAuthorities = (\<lambda>r. 1),
      RekorLogs = (\<lambda>r. 0),
      NewSignedEntityVerifier = (\<lambda>r opts. Inr (r, opts)),
      tuf_New = (\<lambda>opts. Inr opts),
      GetTrustedRoot = (\<lambda>client. Inr client),
      GitHubTUFOptions = ''github'',
      DefaultOptionsWithCacheSetting = ''public good'',
      SignedEntityVerifier_Verify =
        (\<lambda>v b p. if payload b = ''tampered'' then Inl ''signature mismatch''
                   else Inr (''verified '' @ payload b))\<rparr>"

definition example_attestation :: "string list \<Rightarrow> string \<Rightarrow> string attestation" where
  "example_attestation orgs p =
     \<lparr>Bundle = \<lparr>VerificationContent =
                  Inr \<lparr>HasCertificate = Some \<lparr>Issuer = \<lparr>Organization = orgs\<rparr>\<rparr>\<rparr>,
                payload = p\<rparr>\<rparr>"

definition no_certificate_attestation :: "string attestation" where
  "no_certificate_attestation =
     \<lparr>Bundle = \<lparr>VerificationContent = Inr \<lparr>HasCertificate = None\<rparr>, payload = ''x''\<rparr>\<rparr>"

definition no_content_attestation :: "string attestation" where
  "no_content_attestation =
     \<lparr>Bundle = \<lparr>VerificationContent = Inl ''missing verification material'',
                payload = ''x''\<rparr>\<rparr>"

definition default_config :: SigstoreConfig where
  "default_config = \<lparr>CustomTrustedRoot = [], NoPublicGood = False\<rparr>"

definition no_public_good_config :: SigstoreConfig where
  "no_public_good_config = \<lparr>CustomTrustedRoot = [], NoPublicGood = True\<rparr>"

definition custom_config :: SigstoreConfig where
  "custom_config = \<lparr>CustomTrustedRoot = ''trusted_root.json'', NoPublicGood = False\<rparr>"

subsection \<open>The events of a call\<close>

lemma materialized_simps:
  "materialized [] = []"
  "materialized (e # evs) = (case trust_domain_of e of None \<Rightarrow> materialized evs | Some d \<Rightarrow> d # materialized evs)"
  "materialized (evs @ evs') = materialized evs @ materialized evs'"
  by (simp_all add: materialized_def List.map_filter_def split: option.splits)

lemma verified_bundles_simps:
  "verified_bundles [] = []"
  "verified_bundles (e # evs) = (case verified_bundle e of None \<Rightarrow> verified_bundles evs | Some d \<Rightarrow> d # verified_bundles evs)"
  "verified_bundles (evs @ evs') = verified_bundles evs @ verified_bundles evs'"
  by (simp_all add: verified_bundles_def List.map_filter_def split: option.splits)

lemma resolver_cases:
  obtains (no_content) e where "VerificationContent b = Inl e" "spec_IssuerResolver b = Inl MalformedBundle"
  | (no_cert) content where "VerificationContent b = Inr content" "HasCertificate content = None" "spec_IssuerResolver b = Inl MalformedBundle"
  | (ambiguous) content cert where "VerificationContent b = Inr content" "HasCertificate content = Some cert"
       "length (Organization (Issuer cert)) \<noteq> 1" "spec_IssuerResolver b = Inl AmbiguousIssuer"
  | (resolved) content cert org where "VerificationContent b = Inr content" "HasCertificate content = Some cert"
       "Organization (Issuer cert) = [org]" "spec_IssuerResolver b = Inr org"
proof (cases "VerificationContent b")
  case (Inl e)
  then show ?thesis
    using no_content by (simp add: spec_IssuerResolver_def)
next
  case (Inr content)
  show ?thesis
  proof (cases "HasCertificate content")
    case None
    with Inr show ?thesis
      using no_cert by (simp add: spec_IssuerResolver_def)
  next
    case (Some cert)
    show ?thesis
    proof (cases "Organization (Issuer cert)")
      case Nil
      with Inr Some show ?thesis
        using ambiguous [of content cert] by (simp add: spec_IssuerResolver_def)
    next
      case (Cons org orgs)
      with Inr Some show ?thesis
        using ambiguous [of content cert] resolved [of content cert org]
        by (cases orgs) (simp_all add: spec_IssuerResolver_def)
    qed
  qed
qed

lemma chooseVerifier_unresolved:
  assumes "spec_IssuerResolver b = Inl x"
  shows "snd (chooseVerifier L config b) = []"
    and "\<exists>e. fst (chooseVerifier L config b) = Inl e \<and>
           (if x = MalformedBundle then is_MalformedBundle e else is_AmbiguousIssuer e)"
  using assms
  by (cases b rule: resolver_cases;
      simp add: chooseVerifier_def is_MalformedBundle_def is_AmbiguousIssuer_def)+

lemma chooseVerifier_resolved:
  assumes "spec_IssuerResolver b = Inr issuer"
  shows "chooseVerifier L config b =
     (if CustomTrustedRoot config \<noteq> [] then
        (case newCustomVerifier L (CustomTrustedRoot config) of
           Inl e \<Rightarrow> Inl (''failed to create custom verifier: '' @ e)
         | Inr v \<Rightarrow> Inr (v, issuer),
         [Call_newCustomVerifier (CustomTrustedRoot config)])
      else if issuer = ''sigstore.dev'' \<and> \<not> NoPublicGood config then
        (case newPublicGoodVerifier L of
           Inl e \<Rightarrow> Inl (''failed to create Public Good Sigstore verifier: '' @ e)
         | Inr v \<Rightarrow> Inr (v, issuer),
         [Call_newPublicGoodVerifier])
      else if issuer = ''GitHub, Inc.'' \<or> NoPublicGood config then
        (case newGitHubVerifier L of
           Inl e \<Rightarrow> Inl (''failed to create GitHub Sigstore verifier: '' @ e)
         | Inr v \<Rightarrow> Inr (v, issuer),
         [Call_newGitHubVerifier])
      else (Inl ''leaf certificate issuer is not recognized'', []))"
  using assms
  by (cases b rule: resolver_cases)
     (simp_all add: chooseVerifier_def PublicGoodIssuerOrg_def GitHubIssuerOrg_def
        split: sum.splits)

lemma chooseVerifier_materialized:
  "materialized (snd (chooseVerifier L config b)) =
     (case spec_selection config b of None \<Rightarrow> [] | Some d \<Rightarrow> [d])"
proof (cases "spec_IssuerResolver b")
  case (Inl x)
  then show ?thesis
    by (simp add: chooseVerifier_unresolved(1) spec_selection_def materialized_simps)
next
  case (Inr issuer)
  then show ?thesis
    by (simp add: chooseVerifier_resolved spec_selection_def spec_VerifierSelector_def
        materialized_simps)
qed

lemma chooseVerifier_verified: "verified_bundles (snd (chooseVerifier L config b)) = []"
proof (cases "spec_IssuerResolver b")
  case (Inl x)
  then show ?thesis
    by (simp add: chooseVerifier_unresolved(1) verified_bundles_simps)
next
  case (Inr issuer)
  then show ?thesis
    by (simp add: chooseVerifier_resolved verified_bundles_simps)
qed

subsection \<open>The loop of Verify\<close>

lemma not_isl_iff: "\<not> isl x \<longleftrightarrow> (\<exists>r. x = Inr r)"
  by (cases x) simp_all

lemma attestation_passes_iff:
  "attestation_passes L config policy att \<longleftrightarrow>
     (\<exists>verifier issuer result.
        fst (chooseVerifier L config (Bundle att)) = Inr (verifier, issuer) \<and>
        SignedEntityVerifier_Verify L verifier (Bundle att) policy = Inr result)"
proof (cases "fst (chooseVerifier L config (Bundle att))")
  case (Inl e)
  then show ?thesis by (simp add: attestation_passes_def)
next
  case (Inr vi)
  then show ?thesis
    by (cases vi) (simp add: attestation_passes_def not_isl_iff)
qed

lemma verify_loop_Cons_fst:
  "fst (verify_loop L config policy n i (apr # rest)) =
     (case fst (chooseVerifier L config (Bundle (Attestation apr))) of
        Inl e \<Rightarrow>
          Inl \<lparr>VerifyResults = None,
               Error = Some (''failed to find recognized issuer from bundle content: '' @ e)\<rparr>
      | Inr (verifier, issuer) \<Rightarrow>
          (case SignedEntityVerifier_Verify L verifier (Bundle (Attestation apr)) policy of
             Inl e \<Rightarrow>
               Inl \<lparr>VerifyResults = None,
                    Error = Some (''verifying with issuer '' @ dq @ issuer @ dq @ '': '' @ e)\<rparr>
           | Inr result \<Rightarrow>
               (case fst (verify_loop L config policy n (i + 1) rest) of
                  Inl res \<Rightarrow> Inl res
                | Inr rest' \<Rightarrow> Inr (apr\<lparr>VerificationResult := Some result\<rparr> # rest'))))"
  by (simp add: Let_def split: prod.splits sum.splits)

lemma verify_loop_Cons_materialized:
  "materialized (snd (verify_loop L config policy n i (apr # rest))) =
     materialized (snd (chooseVerifier L config (Bundle (Attestation apr)))) @
     (if attestation_passes L config policy (Attestation apr)
      then materialized (snd (verify_loop L config policy n (i + 1) rest)) else [])"
  by (simp add: Let_def attestation_passes_def materialized_simps
      split: prod.splits sum.splits)

lemma verify_loop_Cons_verified:
  "verified_bundles (snd (verify_loop L config policy n i (apr # rest))) =
     (if isl (fst (chooseVerifier L config (Bundle (Attestation apr)))) then []
      else Bundle (Attestation apr) #
        (if attestation_passes L config policy (Attestation apr)
         then verified_bundles (snd (verify_loop L config policy n (i + 1) rest)) else []))"
proof -
  obtain r ev1 where cv: "chooseVerifier L config (Bundle (Attestation apr)) = (r, ev1)"
    by (cases "chooseVerifier L config (Bundle (Attestation apr))")
  have "verified_bundles ev1 = []"
    using chooseVerifier_verified [of L config "Bundle (Attestation apr)"] cv by simp
  with cv show ?thesis
    by (simp add: Let_def attestation_passes_def verified_bundles_simps
        split: prod.splits sum.splits)
qed

lemma passes_prefix:
  "list_all P xs \<Longrightarrow> length (takeWhile P xs) = length xs"
  by (induction xs) simp_all

lemma verify_loop_passes:
  assumes "list_all (\<lambda>apr. attestation_passes L config policy (Attestation apr)) aprs"
  shows "fst (verify_loop L config policy n i aprs) =
     Inr (map (\<lambda>apr. apr\<lparr>VerificationResult :=
                 Some (projr (SignedEntityVerifier_Verify L
                    (fst (projr (fst (chooseVerifier L config (Bundle (Attestation apr))))))
                    (Bundle (Attestation apr)) policy))\<rparr>) aprs)"
  using assms
proof (induction aprs arbitrary: i)
  case Nil
  then show ?case by simp
next
  case (Cons apr rest)
  from Cons.prems have rest:
    "list_all (\<lambda>apr. attestation_passes L config policy (Attestation apr)) rest"
    by simp
  from Cons.prems obtain verifier issuer result where
    "fst (chooseVerifier L config (Bundle (Attestation apr))) = Inr (verifier, issuer)"
    "SignedEntityVerifier_Verify L verifier (Bundle (Attestation apr)) policy = Inr result"
    by (auto simp: attestation_passes_iff)
  then show ?case
    using Cons.IH [OF rest, of "i + 1"]
    by (simp add: verify_loop_Cons_fst del: verify_loop.simps)
qed

lemma verify_loop_fails:
  assumes "\<not> list_all (\<lambda>apr. attestation_passes L config policy (Attestation apr)) aprs"
  shows "fst (verify_loop L config policy n i aprs) =
     Inl \<lparr>VerifyResults = None,
          Error = Some
            (let b = Bundle (Attestation
                       (aprs ! length (takeWhile
                          (\<lambda>apr. attestation_passes L config policy (Attestation apr)) aprs)))
             in case fst (chooseVerifier L config b) of
               Inl e \<Rightarrow> ''failed to find recognized issuer from bundle content: '' @ e
             | Inr (verifier, issuer) \<Rightarrow>
                 ''verifying with issuer '' @ dq @ issuer @ dq @ '': '' @
                   projl (SignedEntityVerifier_Verify L verifier b policy))\<rparr>"
  using assms
proof (induction aprs arbitrary: i)
  case Nil
  then show ?case by simp
next
  case (Cons apr rest)
  show ?case
  proof (cases "attestation_passes L config policy (Attestation apr)")
    case True
    with Cons.prems have rest:
      "\<not> list_all (\<lambda>apr. attestation_passes L config policy (Attestation apr)) rest"
      by simp
    from True obtain verifier issuer result where
      "fst (chooseVerifier L config (Bundle (Attestation apr))) = Inr (verifier, issuer)"
      "SignedEntityVerifier_Verify L verifier (Bundle (Attestation apr)) policy = Inr result"
      by (auto simp: attestation_passes_iff)
    then show ?thesis
      using Cons.IH [OF rest, of "i + 1"] True
      by (simp add: verify_loop_Cons_fst del: verify_loop.simps)
  next
    case False
    show ?thesis
    proof (cases "fst (chooseVerifier L config (Bundle (Attestation apr)))")
      case (Inl e)
      with False show ?thesis
        by (simp add: verify_loop_Cons_fst del: verify_loop.simps)
    next
      case (Inr vi)
      obtain verifier issuer where vi: "vi = (verifier, issuer)" by (cases vi)
      from False Inr vi obtain e where
        "SignedEntityVerifier_Verify L verifier (Bundle (Attestation apr)) policy = Inl e"
        by (cases "SignedEntityVerifier_Verify L verifier (Bundle (Attestation apr)) policy")
           (auto simp: attestation_passes_iff)
      with False Inr vi show ?thesis
        by (simp add: verify_loop_Cons_fst del: verify_loop.simps)
    qed
  qed
qed

lemma verify_loop_materialized:
  "materialized (snd (verify_loop L config policy n i aprs)) =
     List.map_filter (\<lambda>apr. spec_selection config (Bundle (Attestation apr)))
       (take (Suc (length (takeWhile
          (\<lambda>apr. attestation_passes L config policy (Attestation apr)) aprs))) aprs)"
proof (induction aprs arbitrary: i)
  case Nil
  then show ?case by (simp add: materialized_simps List.map_filter_simps)
next
  case (Cons apr rest)
  show ?case
    using Cons.IH [of "i + 1"]
    by (simp add: verify_loop_Cons_materialized chooseVerifier_materialized
        List.map_filter_simps del: verify_loop.simps split: option.splits)
qed

lemma verify_loop_verified:
  "verified_bundles (snd (verify_loop L config policy n i aprs)) =
     map (\<lambda>apr. Bundle (Attestation apr))
       (let k = length (takeWhile
                  (\<lambda>apr. attestation_passes L config policy (Attestation apr)) aprs)
        in if k < length aprs \<and> isl (fst (chooseVerifier L config (Bundle (Attestation (aprs ! k)))))
           then take k aprs else take (Suc k) aprs)"
proof (induction aprs arbitrary: i)
  case Nil
  then show ?case by (simp add: verified_bundles_simps)
next
  case (Cons apr rest)
  show ?case
  proof (cases "attestation_passes L config policy (Attestation apr)")
    case True
    then have "\<not> isl (fst (chooseVerifier L config (Bundle (Attestation apr))))"
      by (auto simp: attestation_passes_iff)
    with True show ?thesis
      using Cons.IH [of "i + 1"]
      by (simp add: verify_loop_Cons_verified Let_def del: verify_loop.simps)
  next
    case False
    then show ?thesis
      by (simp add: verify_loop_Cons_verified del: verify_loop.simps)
  qed
qed

subsection \<open>Verify\<close>

lemma slot_passes:
  "list_all (\<lambda>apr. P (Attestation apr))
     (map (\<lambda>att. \<lparr>Attestation = att, VerificationResult = None\<rparr>) atts) = list_all P atts"
  by (simp add: list.pred_map comp_def)

lemma slot_takeWhile:
  "length (takeWhile (\<lambda>apr. P (Attestation apr))
     (map (\<lambda>att. \<lparr>Attestation = att, VerificationResult = None\<rparr>) atts)) =
   length (takeWhile P atts)"
  by (simp add: takeWhile_map comp_def)

lemma first_failure_less:
  "\<not> list_all (attestation_passes L config policy) atts \<Longrightarrow>
     first_failure L config policy atts < length atts"
  unfolding first_failure_def
  by (induction atts) auto

lemma first_failure_fails:
  "\<not> list_all (attestation_passes L config policy) atts \<Longrightarrow>
     \<not> attestation_passes L config policy (atts ! first_failure L config policy atts)"
  unfolding first_failure_def
  by (induction atts) auto

lemma Verify_fst_passes:
  assumes "list_all (attestation_passes L config policy) atts"
  shows "fst (Verify L config atts policy) =
     \<lparr>VerifyResults = Some (map (\<lambda>att. \<lparr>Attestation = att, VerificationResult =
                 Some (projr (SignedEntityVerifier_Verify L
                    (fst (projr (fst (chooseVerifier L config (Bundle att)))))
                    (Bundle att) policy))\<rparr>) atts),
      Error = None\<rparr>"
proof -
  let ?slots = "map (\<lambda>att. \<lparr>Attestation = att, VerificationResult = None :: 'g option\<rparr>) atts"
  obtain r evs where loop: "verify_loop L config policy (length atts) 0 ?slots = (r, evs)"
    by (cases "verify_loop L config policy (length atts) 0 ?slots")
  from assms have "list_all (\<lambda>apr. attestation_passes L config policy (Attestation apr)) ?slots"
    by (simp add: slot_passes)
  from verify_loop_passes [OF this, of "length atts" 0] loop
  show ?thesis
    by (simp add: Verify_def comp_def)
qed

lemma Verify_fst_fails:
  assumes "\<not> list_all (attestation_passes L config policy) atts"
  shows "fst (Verify L config atts policy) =
     \<lparr>VerifyResults = None,
      Error = Some
        (let b = Bundle (atts ! first_failure L config policy atts)
         in case fst (chooseVerifier L config b) of
              Inl e \<Rightarrow> ''failed to find recognized issuer from bundle content: '' @ e
            | Inr (verifier, issuer) \<Rightarrow>
                ''verifying with issuer '' @ dq @ issuer @ dq @ '': '' @
                  projl (SignedEntityVerifier_Verify L verifier b policy))\<rparr>"
proof -
  let ?slots = "map (\<lambda>att. \<lparr>Attestation = att, VerificationResult = None :: 'g option\<rparr>) atts"
  obtain r evs where loop: "verify_loop L config policy (length atts) 0 ?slots = (r, evs)"
    by (cases "verify_loop L config policy (length atts) 0 ?slots")
  from assms have "\<not> list_all (\<lambda>apr. attestation_passes L config policy (Attestation apr)) ?slots"
    by (simp add: slot_passes)
  from verify_loop_fails [OF this, of "length atts" 0] loop first_failure_less [OF assms]
  show ?thesis
    by (simp add: Verify_def slot_takeWhile first_failure_def)
qed

lemma Verify_snd:
  "snd (Verify L config atts policy) =
     snd (verify_loop L config policy (length atts) 0
            (map (\<lambda>att. \<lparr>Attestation = att, VerificationResult = None\<rparr>) atts))"
  by (simp add: Verify_def split: prod.splits sum.splits)

lemma map_filter_map: "List.map_filter f (map g xs) = List.map_filter (\<lambda>x. f (g x)) xs"
  by (induction xs) (simp_all add: List.map_filter_simps split: option.splits)

lemma Verify_materialized:
  "materialized (snd (Verify L config atts policy)) =
     List.map_filter (\<lambda>att. spec_selection config (Bundle att))
       (take (Suc (first_failure L config policy atts)) atts)"
  by (simp add: Verify_snd verify_loop_materialized slot_takeWhile first_failure_def
      take_map map_filter_map)

lemma Verify_verified:
  "verified_bundles (snd (Verify L config atts policy)) =
     map Bundle
       (let k = first_failure L config policy atts
        in if k < length atts \<and> isl (fst (chooseVerifier L config (Bundle (atts ! k))))
           then take k atts else take (Suc k) atts)"
proof -
  have "first_failure L config policy atts \<le> length atts"
    by (simp add: first_failure_def length_takeWhile_le)
  then show ?thesis
    by (auto simp add: Verify_snd verify_loop_verified slot_takeWhile first_failure_def
        take_map Let_def comp_def)
qed

subsection \<open>The error classes and the example inputs\<close>

lemma example_resolves:
  "spec_IssuerResolver (Bundle (example_attestation [org] p)) = Inr org"
  by (simp add: spec_IssuerResolver_def example_attestation_def)

lemma not_malformed_messages:
  "\<not> is_MalformedBundle ''expected the leaf certificate issuer to only have one organization''"
  "\<not> is_MalformedBundle (''failed to create custom verifier: '' @ e)"
  "\<not> is_MalformedBundle (''failed to create Public Good Sigstore verifier: '' @ e)"
  "\<not> is_MalformedBundle (''failed to create GitHub Sigstore verifier: '' @ e)"
  "\<not> is_MalformedBundle ''leaf certificate issuer is not recognized''"
  by (simp_all add: is_MalformedBundle_def)

lemma chooseVerifier_resolved_error:
  assumes "spec_IssuerResolver b = Inr issuer"
    and "fst (chooseVerifier L config b) = Inl e"
  shows "\<not> is_MalformedBundle e \<and> \<not> is_AmbiguousIssuer e"
  using assms(2) unfolding chooseVerifier_resolved [OF assms(1)]
  by (auto simp: is_MalformedBundle_def is_AmbiguousIssuer_def split: if_splits sum.splits)

lemma chooseVerifier_resolved_issuer:
  assumes "spec_IssuerResolver b = Inr org"
    and "fst (chooseVerifier L config b) = Inr (verifier, issuer)"
  shows "issuer = org"
  using assms(2) unfolding chooseVerifier_resolved [OF assms(1)]
  by (auto split: if_splits sum.splits)

lemma chooseVerifier_class:
  "(\<exists>e. fst (chooseVerifier L config b) = Inl e \<and> is_MalformedBundle e) \<longleftrightarrow>
     spec_IssuerResolver b = Inl MalformedBundle"
  "(\<exists>e. fst (chooseVerifier L config b) = Inl e \<and> is_AmbiguousIssuer e) \<longleftrightarrow>
     spec_IssuerResolver b = Inl AmbiguousIssuer"
proof -
  show "(\<exists>e. fst (chooseVerifier L config b) = Inl e \<and> is_MalformedBundle e) \<longleftrightarrow>
     spec_IssuerResolver b = Inl MalformedBundle"
  proof (cases "spec_IssuerResolver b")
    case (Inl x)
    from chooseVerifier_unresolved(2) [OF Inl, of L config] Inl show ?thesis
      by (cases x) (auto simp: is_AmbiguousIssuer_def not_malformed_messages)
  next
    case (Inr org)
    with chooseVerifier_resolved_error [OF Inr, of L config] show ?thesis
      by auto
  qed
  show "(\<exists>e. fst (chooseVerifier L config b) = Inl e \<and> is_AmbiguousIssuer e) \<longleftrightarrow>
     spec_IssuerResolver b = Inl AmbiguousIssuer"
  proof (cases "spec_IssuerResolver b")
    case (Inl x)
    have "\<And>e. is_MalformedBundle e \<Longrightarrow> \<not> is_AmbiguousIssuer e"
      by (auto simp: is_AmbiguousIssuer_def not_malformed_messages)
    with chooseVerifier_unresolved(2) [OF Inl, of L config] Inl show ?thesis
      by (cases x) auto
  next
    case (Inr org)
    with chooseVerifier_resolved_error [OF Inr, of L config] show ?thesis
      by auto
  qed
qed

lemma example_constructors:
  "newPublicGoodVerifier example_library =
     Inr (''public good'',
          [WithSignedCertificateTimestamps 1, WithTransparencyLog 1, WithObserverTimestamps 1])"
  "newGitHubVerifier example_library = Inr (''github'', [WithSignedTimestamps 1])"
  "newCustomVerifier example_library ''trusted_root.json'' =
     Inr (''custom root'',
          [WithSignedCertificateTimestamps 1, WithObserverTimestamps 1, WithSignedTimestamps 1])"
  by (simp_all add: newPublicGoodVerifier_def newGitHubVerifier_def newCustomVerifier_def
      example_library_def)

lemma example_configs:
  "CustomTrustedRoot default_config = []" "\<not> NoPublicGood default_config"
  "CustomTrustedRoot no_public_good_config = []" "NoPublicGood no_public_good_config"
  "CustomTrustedRoot custom_config = ''trusted_root.json''" "\<not> NoPublicGood custom_config"
  by (simp_all add: default_config_def no_public_good_config_def custom_config_def)

lemma no_certificate_unresolved:
  "spec_IssuerResolver (Bundle no_certificate_attestation) = Inl MalformedBundle"
  by (simp add: spec_IssuerResolver_def no_certificate_attestation_def)

lemma no_content_unresolved:
  "spec_IssuerResolver (Bundle no_content_attestation) = Inl MalformedBundle"
  by (simp add: spec_IssuerResolver_def no_content_attestation_def)

lemma two_organizations_unresolved:
  "spec_IssuerResolver (Bundle (example_attestation [org, org'] p)) = Inl AmbiguousIssuer"
  by (simp add: spec_IssuerResolver_def example_attestation_def)


subsection \<open>The claims on chooseVerifier\<close>

text \<open>
  Claim C3 (custom-root precedence). For every bundle whose issuer resolves, a non-empty
  \<open>CustomTrustedRoot\<close> makes \<open>chooseVerifier\<close> construct the Custom verifier and no
  other: its only event is the call of \<open>newCustomVerifier\<close> on the configured path, and
  its result is what that constructor returns, paired with the issuer. Neither the
  issuer (recognized or not) nor \<open>NoPublicGood\<close> has a part in it.
\<close>

theorem custom_root_precedence:
  assumes "spec_IssuerResolver b = Inr issuer"
    and "CustomTrustedRoot config \<noteq> []"
  shows "materialized (snd (chooseVerifier L config b)) = [Custom] \<and>
         snd (chooseVerifier L config b) = [Call_newCustomVerifier (CustomTrustedRoot config)] \<and>
         fst (chooseVerifier L config b) =
           (case newCustomVerifier L (CustomTrustedRoot config) of
              Inl e \<Rightarrow> Inl (''failed to create custom verifier: '' @ e)
            | Inr customVerifier \<Rightarrow> Inr (customVerifier, issuer))"
  using assms
  by (simp add: chooseVerifier_resolved materialized_simps)

text \<open>
  C3 at an input: issuer \<open>sigstore.dev\<close>, \<open>NoPublicGood\<close> set, and a custom trusted root.
\<close>

theorem custom_root_precedence_witness:
  "spec_IssuerResolver (Bundle (example_attestation [''sigstore.dev''] ''a'')) = Inr ''sigstore.dev'' \<and>
   CustomTrustedRoot (custom_config\<lparr>NoPublicGood := True\<rparr>) \<noteq> [] \<and>
   materialized (snd (chooseVerifier example_library (custom_config\<lparr>NoPublicGood := True\<rparr>)
      (Bundle (example_attestation [''sigstore.dev''] ''a'')))) = [Custom] \<and>
   fst (chooseVerifier example_library (custom_config\<lparr>NoPublicGood := True\<rparr>)
      (Bundle (example_attestation [''sigstore.dev''] ''a''))) =
     Inr ((''custom root'',
           [WithSignedCertificateTimestamps 1, WithObserverTimestamps 1, WithSignedTimestamps 1]),
          ''sigstore.dev'')"
proof -
  have r: "spec_IssuerResolver (Bundle (example_attestation [''sigstore.dev''] ''a'')) = Inr ''sigstore.dev''"
    by (rule example_resolves)
  have c: "CustomTrustedRoot (custom_config\<lparr>NoPublicGood := True\<rparr>) \<noteq> []"
    by (simp add: custom_config_def)
  have v: "newCustomVerifier example_library (CustomTrustedRoot (custom_config\<lparr>NoPublicGood := True\<rparr>)) =
      Inr (''custom root'',
           [WithSignedCertificateTimestamps 1, WithObserverTimestamps 1, WithSignedTimestamps 1])"
    by (simp add: custom_config_def newCustomVerifier_def example_library_def)
  note t = custom_root_precedence [OF r c, of example_library]
  from t have 1: "materialized (snd (chooseVerifier example_library
      (custom_config\<lparr>NoPublicGood := True\<rparr>)
      (Bundle (example_attestation [''sigstore.dev''] ''a'')))) = [Custom]"
    by blast
  from t have 2: "fst (chooseVerifier example_library (custom_config\<lparr>NoPublicGood := True\<rparr>)
      (Bundle (example_attestation [''sigstore.dev''] ''a''))) =
     Inr ((''custom root'',
           [WithSignedCertificateTimestamps 1, WithObserverTimestamps 1, WithSignedTimestamps 1]),
          ''sigstore.dev'')"
    by (simp only: v sum.case)
  from r c 1 2 show ?thesis by blast
qed

text \<open>
  Claim C4 (selection rules 2 to 4). For every bundle whose issuer resolves, with no
  custom trusted root:
  \<^item> when the issuer is \<open>sigstore.dev\<close> and \<open>NoPublicGood\<close> is false, \<open>chooseVerifier\<close>
    calls \<open>newPublicGoodVerifier\<close> and nothing else, and returns the verifier that
    constructor returns, paired with the issuer (or its error, wrapped);
  \<^item> otherwise, when the issuer is \<open>GitHub, Inc.\<close> or \<open>NoPublicGood\<close> is true, it calls
    \<open>newGitHubVerifier\<close> and nothing else, and returns the verifier that constructor
    returns, paired with the issuer (or its error, wrapped);
  \<^item> otherwise it calls no constructor and fails with the unrecognized-issuer error.

  So the Public Good verifier is constructed exactly under the first condition, the
  GitHub verifier exactly under the second, and the unrecognized-issuer error occurs
  exactly under the third. With \<open>NoPublicGood\<close> set the GitHub verifier is always the one
  chosen, whatever the issuer, and the unrecognized-issuer error cannot occur.
\<close>

theorem selection_rules:
  assumes "spec_IssuerResolver b = Inr issuer"
    and "CustomTrustedRoot config = []"
  shows "(issuer = ''sigstore.dev'' \<and> \<not> NoPublicGood config \<longrightarrow>
            chooseVerifier L config b =
              (case newPublicGoodVerifier L of
                 Inl e \<Rightarrow> Inl (''failed to create Public Good Sigstore verifier: '' @ e)
               | Inr publicGoodVerifier \<Rightarrow> Inr (publicGoodVerifier, issuer),
               [Call_newPublicGoodVerifier])) \<and>
         (\<not> (issuer = ''sigstore.dev'' \<and> \<not> NoPublicGood config) \<and>
          (issuer = ''GitHub, Inc.'' \<or> NoPublicGood config) \<longrightarrow>
            chooseVerifier L config b =
              (case newGitHubVerifier L of
                 Inl e \<Rightarrow> Inl (''failed to create GitHub Sigstore verifier: '' @ e)
               | Inr ghVerifier \<Rightarrow> Inr (ghVerifier, issuer),
               [Call_newGitHubVerifier])) \<and>
         (\<not> (issuer = ''sigstore.dev'' \<and> \<not> NoPublicGood config) \<and>
          \<not> (issuer = ''GitHub, Inc.'' \<or> NoPublicGood config) \<longrightarrow>
            chooseVerifier L config b =
              (Inl ''leaf certificate issuer is not recognized'', [])) \<and>
         (materialized (snd (chooseVerifier L config b)) = [PublicGood] \<longleftrightarrow>
            issuer = ''sigstore.dev'' \<and> \<not> NoPublicGood config) \<and>
         (materialized (snd (chooseVerifier L config b)) = [GitHub] \<longleftrightarrow>
            \<not> (issuer = ''sigstore.dev'' \<and> \<not> NoPublicGood config) \<and>
            (issuer = ''GitHub, Inc.'' \<or> NoPublicGood config)) \<and>
         ((\<exists>e. fst (chooseVerifier L config b) = Inl e \<and> is_UnrecognizedIssuer e) \<longleftrightarrow>
            \<not> (issuer = ''sigstore.dev'' \<and> \<not> NoPublicGood config) \<and>
            \<not> (issuer = ''GitHub, Inc.'' \<or> NoPublicGood config)) \<and>
         (materialized (snd (chooseVerifier L config b)) = [] \<longleftrightarrow>
            (\<exists>e. fst (chooseVerifier L config b) = Inl e \<and> is_UnrecognizedIssuer e)) \<and>
         (NoPublicGood config \<longrightarrow>
            chooseVerifier L config b =
              (case newGitHubVerifier L of
                 Inl e \<Rightarrow> Inl (''failed to create GitHub Sigstore verifier: '' @ e)
               | Inr ghVerifier \<Rightarrow> Inr (ghVerifier, issuer),
               [Call_newGitHubVerifier]))"
proof -
  note cv = chooseVerifier_resolved [OF assms(1), of L config]
  have pg: "chooseVerifier L config b =
              (case newPublicGoodVerifier L of
                 Inl e \<Rightarrow> Inl (''failed to create Public Good Sigstore verifier: '' @ e)
               | Inr publicGoodVerifier \<Rightarrow> Inr (publicGoodVerifier, issuer),
               [Call_newPublicGoodVerifier])"
    if "issuer = ''sigstore.dev'' \<and> \<not> NoPublicGood config"
    using that assms(2) by (simp add: cv)
  have gh: "chooseVerifier L config b =
              (case newGitHubVerifier L of
                 Inl e \<Rightarrow> Inl (''failed to create GitHub Sigstore verifier: '' @ e)
               | Inr ghVerifier \<Rightarrow> Inr (ghVerifier, issuer),
               [Call_newGitHubVerifier])"
    if "\<not> (issuer = ''sigstore.dev'' \<and> \<not> NoPublicGood config)"
      and "issuer = ''GitHub, Inc.'' \<or> NoPublicGood config"
    using that assms(2) by (simp add: cv)
  have un: "chooseVerifier L config b = (Inl ''leaf certificate issuer is not recognized'', [])"
    if "\<not> (issuer = ''sigstore.dev'' \<and> \<not> NoPublicGood config)"
      and "\<not> (issuer = ''GitHub, Inc.'' \<or> NoPublicGood config)"
    using that assms(2) by (simp add: cv)
  have tags:
    "(materialized (snd (chooseVerifier L config b)) = [PublicGood] \<longleftrightarrow>
        issuer = ''sigstore.dev'' \<and> \<not> NoPublicGood config) \<and>
     (materialized (snd (chooseVerifier L config b)) = [GitHub] \<longleftrightarrow>
        \<not> (issuer = ''sigstore.dev'' \<and> \<not> NoPublicGood config) \<and>
        (issuer = ''GitHub, Inc.'' \<or> NoPublicGood config)) \<and>
     ((\<exists>e. fst (chooseVerifier L config b) = Inl e \<and> is_UnrecognizedIssuer e) \<longleftrightarrow>
        \<not> (issuer = ''sigstore.dev'' \<and> \<not> NoPublicGood config) \<and>
        \<not> (issuer = ''GitHub, Inc.'' \<or> NoPublicGood config)) \<and>
     (materialized (snd (chooseVerifier L config b)) = [] \<longleftrightarrow>
        (\<exists>e. fst (chooseVerifier L config b) = Inl e \<and> is_UnrecognizedIssuer e))"
    using assms(2)
    by (auto simp add: cv materialized_simps is_UnrecognizedIssuer_def split: sum.splits)
  have npg: "chooseVerifier L config b =
              (case newGitHubVerifier L of
                 Inl e \<Rightarrow> Inl (''failed to create GitHub Sigstore verifier: '' @ e)
               | Inr ghVerifier \<Rightarrow> Inr (ghVerifier, issuer),
               [Call_newGitHubVerifier])"
    if "NoPublicGood config"
    using that by (intro gh) simp_all
  show ?thesis
    apply (intro conjI impI)
           apply (erule pg)
          apply (erule conjE, erule (1) gh)
         apply (erule conjE, erule (1) un)
        apply (rule tags [THEN conjunct1])
       apply (rule tags [THEN conjunct2, THEN conjunct1])
      apply (rule tags [THEN conjunct2, THEN conjunct2, THEN conjunct1])
     apply (rule tags [THEN conjunct2, THEN conjunct2, THEN conjunct2])
    apply (erule npg)
    done
qed

text \<open>
  C4 at the inputs of the examples of the specification: issuer \<open>sigstore.dev\<close> gets
  the Public Good verifier, and the GitHub verifier under \<open>NoPublicGood\<close>; issuer
  \<open>Acme Corp\<close> gets the GitHub verifier under \<open>NoPublicGood\<close> and is unrecognized
  without it.
\<close>

theorem selection_rules_witness:
  "spec_IssuerResolver (Bundle (example_attestation [''Acme Corp''] ''a'')) = Inr ''Acme Corp'' \<and>
   spec_IssuerResolver (Bundle (example_attestation [''sigstore.dev''] ''a'')) = Inr ''sigstore.dev'' \<and>
   CustomTrustedRoot no_public_good_config = [] \<and>
   CustomTrustedRoot default_config = [] \<and>
   chooseVerifier example_library default_config
      (Bundle (example_attestation [''sigstore.dev''] ''a'')) =
     (Inr ((''public good'',
            [WithSignedCertificateTimestamps 1, WithTransparencyLog 1, WithObserverTimestamps 1]),
           ''sigstore.dev''),
      [Call_newPublicGoodVerifier]) \<and>
   chooseVerifier example_library no_public_good_config
      (Bundle (example_attestation [''sigstore.dev''] ''a'')) =
     (Inr ((''github'', [WithSignedTimestamps 1]), ''sigstore.dev''), [Call_newGitHubVerifier]) \<and>
   chooseVerifier example_library no_public_good_config
      (Bundle (example_attestation [''Acme Corp''] ''a'')) =
     (Inr ((''github'', [WithSignedTimestamps 1]), ''Acme Corp''), [Call_newGitHubVerifier]) \<and>
   chooseVerifier example_library default_config
      (Bundle (example_attestation [''Acme Corp''] ''a'')) =
     (Inl ''leaf certificate issuer is not recognized'', []) \<and>
   materialized (snd (chooseVerifier example_library default_config
      (Bundle (example_attestation [''sigstore.dev''] ''a'')))) = [PublicGood] \<and>
   materialized (snd (chooseVerifier example_library no_public_good_config
      (Bundle (example_attestation [''sigstore.dev''] ''a'')))) = [GitHub] \<and>
   (\<exists>e. fst (chooseVerifier example_library default_config
      (Bundle (example_attestation [''Acme Corp''] ''a''))) = Inl e \<and> is_UnrecognizedIssuer e)"
proof -
  have r: "spec_IssuerResolver (Bundle (example_attestation [''Acme Corp''] ''a'')) = Inr ''Acme Corp''"
    by (rule example_resolves)
  have s: "spec_IssuerResolver (Bundle (example_attestation [''sigstore.dev''] ''a'')) = Inr ''sigstore.dev''"
    by (rule example_resolves)
  note c = example_configs(3) and d = example_configs(1)
  note sd = selection_rules [OF s d, of example_library]
  note sc = selection_rules [OF s c, of example_library]
  note rc = selection_rules [OF r c, of example_library]
  note rd = selection_rules [OF r d, of example_library]
  from sd [THEN conjunct1]
  have 0: "chooseVerifier example_library default_config
      (Bundle (example_attestation [''sigstore.dev''] ''a'')) =
     (Inr ((''public good'',
            [WithSignedCertificateTimestamps 1, WithTransparencyLog 1, WithObserverTimestamps 1]),
           ''sigstore.dev''),
      [Call_newPublicGoodVerifier])"
    by (simp add: example_configs example_constructors)
  from sc [THEN conjunct2, THEN conjunct1]
  have 1: "chooseVerifier example_library no_public_good_config
      (Bundle (example_attestation [''sigstore.dev''] ''a'')) =
     (Inr ((''github'', [WithSignedTimestamps 1]), ''sigstore.dev''), [Call_newGitHubVerifier])"
    by (simp add: example_configs example_constructors)
  from rc [THEN conjunct2, THEN conjunct1]
  have 2: "chooseVerifier example_library no_public_good_config
      (Bundle (example_attestation [''Acme Corp''] ''a'')) =
     (Inr ((''github'', [WithSignedTimestamps 1]), ''Acme Corp''), [Call_newGitHubVerifier])"
    by (simp add: example_configs example_constructors)
  from rd [THEN conjunct2, THEN conjunct2, THEN conjunct1]
  have 3: "chooseVerifier example_library default_config
      (Bundle (example_attestation [''Acme Corp''] ''a'')) =
     (Inl ''leaf certificate issuer is not recognized'', [])"
    by (simp add: example_configs)
  from sd [THEN conjunct2, THEN conjunct2, THEN conjunct2, THEN conjunct1]
  have 4: "materialized (snd (chooseVerifier example_library default_config
      (Bundle (example_attestation [''sigstore.dev''] ''a'')))) = [PublicGood]"
    by (simp add: example_configs)
  from sc [THEN conjunct2, THEN conjunct2, THEN conjunct2, THEN conjunct2, THEN conjunct1]
  have 5: "materialized (snd (chooseVerifier example_library no_public_good_config
      (Bundle (example_attestation [''sigstore.dev''] ''a'')))) = [GitHub]"
    by (simp add: example_configs)
  from rd [THEN conjunct2, THEN conjunct2, THEN conjunct2, THEN conjunct2, THEN conjunct2,
      THEN conjunct1]
  have 6: "\<exists>e. fst (chooseVerifier example_library default_config
      (Bundle (example_attestation [''Acme Corp''] ''a''))) = Inl e \<and> is_UnrecognizedIssuer e"
    by (simp add: example_configs)
  show ?thesis
    by (intro conjI) (rule r s c d 0 1 2 3 4 5 6)+
qed

text \<open>
  Claim C5 (issuer resolution). \<open>chooseVerifier\<close> fails with a message of the
  MalformedBundle class exactly when the bundle carries no verification content or no
  certificate, and with the message of the AmbiguousIssuer class exactly when the issuer
  of the leaf certificate declares a number of organizations other than one (the
  Issuer Resolver of the specification, \<open>spec_IssuerResolver\<close>, says when). A failed
  resolution leaves no event: nothing was constructed, verified or logged.

  Otherwise the issuer is the single organization \<open>org\<close> of the leaf certificate: the
  selection is made on \<open>org\<close>, and \<open>chooseVerifier\<close> returns \<open>org\<close> as the issuer, next
  to the verifier, whenever the constructor it calls returns one; its only failures
  are then the failure of that constructor and the unrecognized issuer.
\<close>

theorem issuer_resolution:
  "(spec_IssuerResolver b = Inl MalformedBundle \<longleftrightarrow>
      (\<exists>e. fst (chooseVerifier L config b) = Inl e \<and> is_MalformedBundle e)) \<and>
   (spec_IssuerResolver b = Inl AmbiguousIssuer \<longleftrightarrow>
      (\<exists>e. fst (chooseVerifier L config b) = Inl e \<and> is_AmbiguousIssuer e)) \<and>
   (\<forall>org content cert.
      VerificationContent b = Inr content \<and> HasCertificate content = Some cert \<and>
      Organization (Issuer cert) = [org] \<longrightarrow>
      spec_IssuerResolver b = Inr org) \<and>
   (\<forall>org.
      spec_IssuerResolver b = Inr org \<longrightarrow>
      fst (chooseVerifier L config b) =
        (if CustomTrustedRoot config \<noteq> [] then
           (case newCustomVerifier L (CustomTrustedRoot config) of
              Inl e \<Rightarrow> Inl (''failed to create custom verifier: '' @ e)
            | Inr v \<Rightarrow> Inr (v, org))
         else if org = ''sigstore.dev'' \<and> \<not> NoPublicGood config then
           (case newPublicGoodVerifier L of
              Inl e \<Rightarrow> Inl (''failed to create Public Good Sigstore verifier: '' @ e)
            | Inr v \<Rightarrow> Inr (v, org))
         else if org = ''GitHub, Inc.'' \<or> NoPublicGood config then
           (case newGitHubVerifier L of
              Inl e \<Rightarrow> Inl (''failed to create GitHub Sigstore verifier: '' @ e)
            | Inr v \<Rightarrow> Inr (v, org))
         else Inl ''leaf certificate issuer is not recognized'')) \<and>
   (\<forall>org verifier issuer.
      spec_IssuerResolver b = Inr org \<and>
      fst (chooseVerifier L config b) = Inr (verifier, issuer) \<longrightarrow> issuer = org) \<and>
   (\<forall>x. spec_IssuerResolver b = Inl x \<longrightarrow> snd (chooseVerifier L config b) = [])"
proof -
  have data: "spec_IssuerResolver b = Inr org"
    if "VerificationContent b = Inr content \<and> HasCertificate content = Some cert \<and>
        Organization (Issuer cert) = [org]" for org content cert
    using that by (simp add: spec_IssuerResolver_def)
  have returned: "fst (chooseVerifier L config b) =
        (if CustomTrustedRoot config \<noteq> [] then
           (case newCustomVerifier L (CustomTrustedRoot config) of
              Inl e \<Rightarrow> Inl (''failed to create custom verifier: '' @ e)
            | Inr v \<Rightarrow> Inr (v, org))
         else if org = ''sigstore.dev'' \<and> \<not> NoPublicGood config then
           (case newPublicGoodVerifier L of
              Inl e \<Rightarrow> Inl (''failed to create Public Good Sigstore verifier: '' @ e)
            | Inr v \<Rightarrow> Inr (v, org))
         else if org = ''GitHub, Inc.'' \<or> NoPublicGood config then
           (case newGitHubVerifier L of
              Inl e \<Rightarrow> Inl (''failed to create GitHub Sigstore verifier: '' @ e)
            | Inr v \<Rightarrow> Inr (v, org))
         else Inl ''leaf certificate issuer is not recognized'')"
    if "spec_IssuerResolver b = Inr org" for org
    by (simp add: chooseVerifier_resolved [OF that])
  from data returned chooseVerifier_class [of L config b]
    chooseVerifier_resolved_issuer [of b _ L config]
    chooseVerifier_unresolved(1) [of b _ L config]
  show ?thesis
    by blast
qed

text \<open>
  C5 at five inputs: a bundle without certificate, a bundle without verification
  content, a certificate whose issuer declares two organizations, and a certificate
  whose issuer declares the one organization \<open>sigstore.dev\<close>, which is returned as the
  issuer with the Public Good verifier and, under a custom trusted root, with the
  custom verifier.
\<close>

theorem issuer_resolution_witness:
  "spec_IssuerResolver (Bundle no_certificate_attestation) = Inl MalformedBundle \<and>
   (\<exists>e. fst (chooseVerifier example_library custom_config (Bundle no_certificate_attestation))
          = Inl e \<and> is_MalformedBundle e) \<and>
   snd (chooseVerifier example_library custom_config (Bundle no_certificate_attestation)) = [] \<and>
   spec_IssuerResolver (Bundle no_content_attestation) = Inl MalformedBundle \<and>
   (\<exists>e. fst (chooseVerifier example_library default_config (Bundle no_content_attestation))
          = Inl e \<and> is_MalformedBundle e) \<and>
   spec_IssuerResolver (Bundle (example_attestation [''sigstore.dev'', ''GitHub, Inc.''] ''a''))
      = Inl AmbiguousIssuer \<and>
   (\<exists>e. fst (chooseVerifier example_library default_config
            (Bundle (example_attestation [''sigstore.dev'', ''GitHub, Inc.''] ''a'')))
          = Inl e \<and> is_AmbiguousIssuer e) \<and>
   spec_IssuerResolver (Bundle (example_attestation [''sigstore.dev''] ''a'')) = Inr ''sigstore.dev'' \<and>
   fst (chooseVerifier example_library default_config
          (Bundle (example_attestation [''sigstore.dev''] ''a''))) =
     Inr ((''public good'',
           [WithSignedCertificateTimestamps 1, WithTransparencyLog 1, WithObserverTimestamps 1]),
          ''sigstore.dev'') \<and>
   fst (chooseVerifier example_library custom_config
          (Bundle (example_attestation [''sigstore.dev''] ''a''))) =
     Inr ((''custom root'',
           [WithSignedCertificateTimestamps 1, WithObserverTimestamps 1, WithSignedTimestamps 1]),
          ''sigstore.dev'')"
proof -
  let ?b = "Bundle (example_attestation [''sigstore.dev''] ''a'')"
  have content: "VerificationContent ?b =
        Inr \<lparr>HasCertificate = Some \<lparr>Issuer = \<lparr>Organization = [''sigstore.dev'']\<rparr>\<rparr>\<rparr> \<and>
      HasCertificate \<lparr>HasCertificate = Some \<lparr>Issuer = \<lparr>Organization = [''sigstore.dev'']\<rparr>\<rparr>\<rparr> =
        Some \<lparr>Issuer = \<lparr>Organization = [''sigstore.dev'']\<rparr>\<rparr> \<and>
      Organization (Issuer \<lparr>Issuer = \<lparr>Organization = [''sigstore.dev'']\<rparr>\<rparr>) = [''sigstore.dev'']"
    by (simp add: example_attestation_def)
  from issuer_resolution [of ?b example_library default_config,
      THEN conjunct2, THEN conjunct2, THEN conjunct1] content
  have r: "spec_IssuerResolver ?b = Inr ''sigstore.dev''"
    by blast
  from issuer_resolution [of ?b example_library default_config,
      THEN conjunct2, THEN conjunct2, THEN conjunct2, THEN conjunct1] r
  have "fst (chooseVerifier example_library default_config ?b) =
        (if CustomTrustedRoot default_config \<noteq> [] then
           (case newCustomVerifier example_library (CustomTrustedRoot default_config) of
              Inl e \<Rightarrow> Inl (''failed to create custom verifier: '' @ e)
            | Inr v \<Rightarrow> Inr (v, ''sigstore.dev''))
         else if ''sigstore.dev'' = ''sigstore.dev'' \<and> \<not> NoPublicGood default_config then
           (case newPublicGoodVerifier example_library of
              Inl e \<Rightarrow> Inl (''failed to create Public Good Sigstore verifier: '' @ e)
            | Inr v \<Rightarrow> Inr (v, ''sigstore.dev''))
         else if ''sigstore.dev'' = ''GitHub, Inc.'' \<or> NoPublicGood default_config then
           (case newGitHubVerifier example_library of
              Inl e \<Rightarrow> Inl (''failed to create GitHub Sigstore verifier: '' @ e)
            | Inr v \<Rightarrow> Inr (v, ''sigstore.dev''))
         else Inl ''leaf certificate issuer is not recognized'')"
    by blast
  then have pg: "fst (chooseVerifier example_library default_config ?b) =
     Inr ((''public good'',
           [WithSignedCertificateTimestamps 1, WithTransparencyLog 1, WithObserverTimestamps 1]),
          ''sigstore.dev'')"
    by (simp add: example_configs example_constructors)
  from issuer_resolution [of ?b example_library custom_config,
      THEN conjunct2, THEN conjunct2, THEN conjunct2, THEN conjunct1] r
  have "fst (chooseVerifier example_library custom_config ?b) =
        (if CustomTrustedRoot custom_config \<noteq> [] then
           (case newCustomVerifier example_library (CustomTrustedRoot custom_config) of
              Inl e \<Rightarrow> Inl (''failed to create custom verifier: '' @ e)
            | Inr v \<Rightarrow> Inr (v, ''sigstore.dev''))
         else if ''sigstore.dev'' = ''sigstore.dev'' \<and> \<not> NoPublicGood custom_config then
           (case newPublicGoodVerifier example_library of
              Inl e \<Rightarrow> Inl (''failed to create Public Good Sigstore verifier: '' @ e)
            | Inr v \<Rightarrow> Inr (v, ''sigstore.dev''))
         else if ''sigstore.dev'' = ''GitHub, Inc.'' \<or> NoPublicGood custom_config then
           (case newGitHubVerifier example_library of
              Inl e \<Rightarrow> Inl (''failed to create GitHub Sigstore verifier: '' @ e)
            | Inr v \<Rightarrow> Inr (v, ''sigstore.dev''))
         else Inl ''leaf certificate issuer is not recognized'')"
    by blast
  then have cu: "fst (chooseVerifier example_library custom_config ?b) =
     Inr ((''custom root'',
           [WithSignedCertificateTimestamps 1, WithObserverTimestamps 1, WithSignedTimestamps 1]),
          ''sigstore.dev'')"
    by (simp add: example_configs example_constructors)
  note nc = issuer_resolution [of "Bundle no_certificate_attestation" example_library custom_config]
  note nv = issuer_resolution [of "Bundle no_content_attestation" example_library default_config]
  note two = issuer_resolution
    [of "Bundle (example_attestation [''sigstore.dev'', ''GitHub, Inc.''] ''a'')"
      example_library default_config]
  from nc [THEN conjunct1] no_certificate_unresolved
  have f1: "\<exists>e. fst (chooseVerifier example_library custom_config
                    (Bundle no_certificate_attestation)) = Inl e \<and> is_MalformedBundle e"
    by blast
  from nc [THEN conjunct2, THEN conjunct2, THEN conjunct2, THEN conjunct2, THEN conjunct2]
    no_certificate_unresolved
  have f2: "snd (chooseVerifier example_library custom_config
                   (Bundle no_certificate_attestation)) = []"
    by blast
  from nv [THEN conjunct1] no_content_unresolved
  have f3: "\<exists>e. fst (chooseVerifier example_library default_config
                    (Bundle no_content_attestation)) = Inl e \<and> is_MalformedBundle e"
    by blast
  from two [THEN conjunct2, THEN conjunct1]
    two_organizations_unresolved [of "''sigstore.dev''" "''GitHub, Inc.''" "''a''"]
  have f4: "\<exists>e. fst (chooseVerifier example_library default_config
                    (Bundle (example_attestation [''sigstore.dev'', ''GitHub, Inc.''] ''a'')))
                 = Inl e \<and> is_AmbiguousIssuer e"
    by blast
  note amb = two_organizations_unresolved [of "''sigstore.dev''" "''GitHub, Inc.''" "''a''"]
  show ?thesis
    by (intro conjI)
       (rule f1 f2 f3 f4 r pg cu no_certificate_unresolved no_content_unresolved amb)+
qed

text \<open>
  Claim C9 (selector determinism). Two calls of \<open>chooseVerifier\<close> with the same
  resolved issuer, the same \<open>CustomTrustedRoot\<close> and the same \<open>NoPublicGood\<close> construct
  the verifier of the same trust domain, whatever the rest of the two bundles and
  whatever the library answers in either call.
\<close>

theorem selector_deterministic:
  assumes "spec_IssuerResolver b1 = Inr issuer"
    and "spec_IssuerResolver b2 = Inr issuer"
    and "CustomTrustedRoot config1 = CustomTrustedRoot config2"
    and "NoPublicGood config1 = NoPublicGood config2"
  shows "materialized (snd (chooseVerifier L1 config1 b1)) =
         materialized (snd (chooseVerifier L2 config2 b2))"
  using assms
  by (simp add: chooseVerifier_materialized spec_selection_def spec_VerifierSelector_def)

text \<open>
  C9 at an input: two bundles of issuer \<open>GitHub, Inc.\<close>, one call with a library
  whose TUF client cannot be created.
\<close>

theorem selector_deterministic_witness:
  "spec_IssuerResolver (Bundle (example_attestation [''GitHub, Inc.''] ''a'')) = Inr ''GitHub, Inc.'' \<and>
   spec_IssuerResolver (Bundle (example_attestation [''GitHub, Inc.''] ''tampered'')) = Inr ''GitHub, Inc.'' \<and>
   CustomTrustedRoot default_config = CustomTrustedRoot default_config \<and>
   NoPublicGood default_config = NoPublicGood default_config \<and>
   materialized (snd (chooseVerifier example_library default_config
     (Bundle (example_attestation [''GitHub, Inc.''] ''a'')))) =
   materialized (snd (chooseVerifier (example_library\<lparr>tuf_New := \<lambda>opts. Inl ''offline''\<rparr>)
     default_config (Bundle (example_attestation [''GitHub, Inc.''] ''tampered''))))"
proof -
  have 1: "spec_IssuerResolver (Bundle (example_attestation [''GitHub, Inc.''] ''a'')) = Inr ''GitHub, Inc.''"
    by (rule example_resolves)
  have 2: "spec_IssuerResolver (Bundle (example_attestation [''GitHub, Inc.''] ''tampered'')) = Inr ''GitHub, Inc.''"
    by (rule example_resolves)
  from selector_deterministic [OF 1 2 refl refl, of example_library default_config
      "example_library\<lparr>tuf_New := \<lambda>opts. Inl ''offline''\<rparr>"] 1 2
  show ?thesis by blast
qed

subsection \<open>Facts about Verify and the example inputs\<close>

lemma example_selected:
  "fst (chooseVerifier example_library default_config
      (Bundle (example_attestation [''sigstore.dev''] p))) =
   Inr ((''public good'', [WithSignedCertificateTimestamps 1, WithTransparencyLog 1,
          WithObserverTimestamps 1]), ''sigstore.dev'')"
  by (simp add: chooseVerifier_resolved [OF example_resolves]
      default_config_def newPublicGoodVerifier_def example_library_def)

lemma example_verify:
  "SignedEntityVerifier_Verify example_library v (Bundle (example_attestation orgs p)) policy =
     (if p = ''tampered'' then Inl ''signature mismatch'' else Inr (''verified '' @ p))"
  by (simp add: example_library_def example_attestation_def)

lemma example_passes:
  "attestation_passes example_library default_config policy
     (example_attestation [''sigstore.dev''] p) \<longleftrightarrow> p \<noteq> ''tampered''"
  by (simp add: attestation_passes_def example_selected example_verify)

lemma example_unrecognized:
  "fst (chooseVerifier example_library default_config
      (Bundle (example_attestation [''Acme Corp''] p))) =
   Inl ''leaf certificate issuer is not recognized''"
  "fst (chooseVerifier example_library default_config
      (Bundle (example_attestation [''Umbrella''] p))) =
   Inl ''leaf certificate issuer is not recognized''"
  by (simp_all add: chooseVerifier_resolved [OF example_resolves] default_config_def)

lemma fails_iff: "(\<exists>x \<in> set xs. \<not> P x) \<longleftrightarrow> \<not> list_all P xs"
  by (simp add: list_all_iff)

lemma chooseVerifier_issuer_resolved:
  assumes "fst (chooseVerifier L config b) = Inr (verifier, issuer)"
  shows "spec_IssuerResolver b = Inr issuer"
proof (cases "spec_IssuerResolver b")
  case (Inl x)
  from chooseVerifier_unresolved(2) [OF Inl, of L config] assms show ?thesis
    by auto
next
  case (Inr org)
  from chooseVerifier_resolved_issuer [OF Inr assms] Inr show ?thesis
    by simp
qed

lemma unresolved_fails:
  assumes "spec_IssuerResolver (Bundle att) = Inl x"
  shows "\<not> attestation_passes L config policy att"
  using chooseVerifier_unresolved(2) [OF assms, of L config]
  by (auto simp: attestation_passes_def)

lemma passes_selected:
  assumes "attestation_passes L config policy att"
  shows "\<exists>d. spec_selection config (Bundle att) = Some d"
proof -
  from assms obtain verifier issuer where
    cv: "fst (chooseVerifier L config (Bundle att)) = Inr (verifier, issuer)"
    by (auto simp: attestation_passes_iff)
  from chooseVerifier_issuer_resolved [OF cv]
  have r: "spec_IssuerResolver (Bundle att) = Inr issuer" .
  from cv show ?thesis
    unfolding chooseVerifier_resolved [OF r]
    by (auto simp: spec_selection_def spec_VerifierSelector_def r split: if_splits)
qed

lemma length_map_filter_le: "length (List.map_filter f xs) \<le> length xs"
  by (simp add: List.map_filter_def)

lemma length_map_filter_all:
  "list_all (\<lambda>x. \<exists>y. f x = Some y) xs \<Longrightarrow> length (List.map_filter f xs) = length xs"
  by (induction xs) (auto simp: List.map_filter_simps)

lemma Verify_empty:
  "Verify L config [] policy = (\<lparr>VerifyResults = Some [], Error = None\<rparr>, [])"
  by (simp add: Verify_def)

lemma Verify_exclusive:
  assumes "atts \<noteq> []"
  shows "SigstoreResults_exclusive (fst (Verify L config atts policy))"
proof (cases "list_all (attestation_passes L config policy) atts")
  case True
  from assms show ?thesis
    by (simp add: Verify_fst_passes [OF True] SigstoreResults_exclusive_def)
next
  case False
  show ?thesis
    by (simp add: Verify_fst_fails [OF False] SigstoreResults_exclusive_def)
qed

lemma example_selection:
  "spec_selection default_config (Bundle (example_attestation [''sigstore.dev''] p)) =
     Some PublicGood"
  by (simp add: spec_selection_def example_resolves spec_VerifierSelector_def default_config_def)


subsection \<open>The claims on Verify\<close>

text \<open>
  Claim C1 (fail-fast, whole batch). If the choice of the verifier or the verification
  fails for some attestation of the batch, \<open>Verify\<close> returns an error and no result
  sequence, and the bundles passed to \<open>verifier.Verify\<close> are those of the attestations
  before the first failing one, followed by the failing one when a verifier was chosen
  for it: no attestation after the first failing one is verified.
\<close>

theorem Verify_fail_fast:
  assumes "\<exists>att \<in> set atts. \<not> attestation_passes L config policy att"
  shows "VerifyResults (fst (Verify L config atts policy)) = None \<and>
         (\<exists>e. Error (fst (Verify L config atts policy)) = Some e) \<and>
         verified_bundles (snd (Verify L config atts policy)) =
           map Bundle (take
             (if isl (fst (chooseVerifier L config
                        (Bundle (atts ! first_failure L config policy atts))))
              then first_failure L config policy atts
              else Suc (first_failure L config policy atts)) atts)"
proof -
  from assms have f: "\<not> list_all (attestation_passes L config policy) atts"
    by (simp add: fails_iff)
  from first_failure_less [OF f] show ?thesis
    by (simp add: Verify_fst_fails [OF f] Verify_verified)
qed

text \<open>
  C1 at an input: of three attestations the second fails verification; the third is
  never verified.
\<close>

theorem Verify_fail_fast_witness:
  "(\<exists>att \<in> set [example_attestation [''sigstore.dev''] ''a'',
                  example_attestation [''sigstore.dev''] ''tampered'',
                  example_attestation [''sigstore.dev''] ''c''].
      \<not> attestation_passes example_library default_config ''policy'' att) \<and>
   VerifyResults (fst (Verify example_library default_config
      [example_attestation [''sigstore.dev''] ''a'',
       example_attestation [''sigstore.dev''] ''tampered'',
       example_attestation [''sigstore.dev''] ''c''] ''policy'')) = None \<and>
   (\<exists>e. Error (fst (Verify example_library default_config
      [example_attestation [''sigstore.dev''] ''a'',
       example_attestation [''sigstore.dev''] ''tampered'',
       example_attestation [''sigstore.dev''] ''c''] ''policy'')) = Some e) \<and>
   verified_bundles (snd (Verify example_library default_config
      [example_attestation [''sigstore.dev''] ''a'',
       example_attestation [''sigstore.dev''] ''tampered'',
       example_attestation [''sigstore.dev''] ''c''] ''policy'')) =
     [Bundle (example_attestation [''sigstore.dev''] ''a''),
      Bundle (example_attestation [''sigstore.dev''] ''tampered'')]"
proof -
  let ?atts = "[example_attestation [''sigstore.dev''] ''a'',
                example_attestation [''sigstore.dev''] ''tampered'',
                example_attestation [''sigstore.dev''] ''c'']"
  have h: "\<exists>att \<in> set ?atts. \<not> attestation_passes example_library default_config ''policy'' att"
    by (simp add: example_passes)
  have k: "first_failure example_library default_config ''policy'' ?atts = 1"
    by (simp add: first_failure_def example_passes)
  from Verify_fail_fast [OF h] h show ?thesis
    by (simp add: k example_selected)
qed

text \<open>
  Claim C2 (success shape). If for every attestation of the batch a verifier is chosen
  and verifies its bundle, \<open>Verify\<close> returns no error and a result sequence as long as the
  input, whose \<open>i\<close>-th entry holds the \<open>i\<close>-th attestation and the result that the
  chosen verifier returned for its bundle.
\<close>

theorem Verify_success_shape:
  assumes "list_all (attestation_passes L config policy) atts"
  shows "\<exists>rs. fst (Verify L config atts policy) = \<lparr>VerifyResults = Some rs, Error = None\<rparr> \<and>
           length rs = length atts \<and>
           (\<forall>i < length atts.
              Attestation (rs ! i) = atts ! i \<and>
              (\<exists>verifier issuer result.
                 fst (chooseVerifier L config (Bundle (atts ! i))) = Inr (verifier, issuer) \<and>
                 SignedEntityVerifier_Verify L verifier (Bundle (atts ! i)) policy = Inr result \<and>
                 VerificationResult (rs ! i) = Some result))"
proof -
  have "\<exists>verifier issuer result.
          fst (chooseVerifier L config (Bundle (atts ! i))) = Inr (verifier, issuer) \<and>
          SignedEntityVerifier_Verify L verifier (Bundle (atts ! i)) policy = Inr result \<and>
          projr (SignedEntityVerifier_Verify L
            (fst (projr (fst (chooseVerifier L config (Bundle (atts ! i))))))
            (Bundle (atts ! i)) policy) = result"
    if "i < length atts" for i
  proof -
    from assms that have "attestation_passes L config policy (atts ! i)"
      by (simp add: list_all_length)
    then show ?thesis
      by (auto simp: attestation_passes_iff)
  qed
  then show ?thesis
    by (simp add: Verify_fst_passes [OF assms])
qed

text \<open>
  C2 at an input: a batch of two.
\<close>

theorem Verify_success_shape_witness:
  "list_all (attestation_passes example_library default_config ''policy'')
     [example_attestation [''sigstore.dev''] ''a'', example_attestation [''sigstore.dev''] ''b''] \<and>
   fst (Verify example_library default_config
     [example_attestation [''sigstore.dev''] ''a'', example_attestation [''sigstore.dev''] ''b'']
     ''policy'') =
   \<lparr>VerifyResults = Some
      [\<lparr>Attestation = example_attestation [''sigstore.dev''] ''a'',
        VerificationResult = Some ''verified a''\<rparr>,
       \<lparr>Attestation = example_attestation [''sigstore.dev''] ''b'',
        VerificationResult = Some ''verified b''\<rparr>],
    Error = None\<rparr>"
proof -
  let ?atts = "[example_attestation [''sigstore.dev''] ''a'',
                example_attestation [''sigstore.dev''] ''b'']"
  have h: "list_all (attestation_passes example_library default_config ''policy'') ?atts"
    by (simp add: example_passes)
  from Verify_success_shape [OF h] obtain rs where
    res: "fst (Verify example_library default_config ?atts ''policy'') =
            \<lparr>VerifyResults = Some rs, Error = None\<rparr>"
    and len: "length rs = length ?atts"
    and nth: "\<forall>i < length ?atts.
              Attestation (rs ! i) = ?atts ! i \<and>
              (\<exists>verifier issuer result.
                 fst (chooseVerifier example_library default_config (Bundle (?atts ! i)))
                   = Inr (verifier, issuer) \<and>
                 SignedEntityVerifier_Verify example_library verifier (Bundle (?atts ! i)) ''policy''
                   = Inr result \<and>
                 VerificationResult (rs ! i) = Some result)"
    by blast
  from len obtain r0 r1 where rs: "rs = [r0, r1]"
    by (cases rs; cases "tl rs"; auto)
  from nth rs have "Attestation r0 = example_attestation [''sigstore.dev''] ''a''"
    "VerificationResult r0 = Some ''verified a''"
    by (auto simp: example_verify)
  then have r0: "r0 = \<lparr>Attestation = example_attestation [''sigstore.dev''] ''a'',
        VerificationResult = Some ''verified a''\<rparr>"
    by (cases r0) simp
  from nth rs have "Attestation r1 = example_attestation [''sigstore.dev''] ''b''"
    "VerificationResult r1 = Some ''verified b''"
    by (auto simp: example_verify)
  then have r1: "r1 = \<lparr>Attestation = example_attestation [''sigstore.dev''] ''b'',
        VerificationResult = Some ''verified b''\<rparr>"
    by (cases r1) simp
  from h res rs r0 r1 show ?thesis by simp
qed

text \<open>
  Claim C6 fails at the empty batch: the loop is not entered, and \<open>Verify\<close> returns
  the empty sequence it made and no error.
\<close>

theorem Verify_empty_batch_counterexample:
  "VerifyResults (fst (Verify example_library default_config [] ''policy'')) = Some [] \<and>
   Error (fst (Verify example_library default_config [] ''policy'')) = None \<and>
   \<not> SigstoreResults_exclusive (fst (Verify example_library default_config [] ''policy''))"
  by (simp add: Verify_empty SigstoreResults_exclusive_def)

text \<open>
  Claim C6, amended (exclusivity). For every batch that is not empty the
  \<open>SigstoreResults\<close> has a non-empty result sequence and no error, or an error and no
  result sequence. For the empty batch it has an empty result sequence and no error.
\<close>

theorem Verify_results_exclusive:
  "(atts \<noteq> [] \<longrightarrow> SigstoreResults_exclusive (fst (Verify L config atts policy))) \<and>
   (atts = [] \<longrightarrow>
      fst (Verify L config atts policy) = \<lparr>VerifyResults = Some [], Error = None\<rparr>)"
  by (simp add: Verify_exclusive Verify_empty)

text \<open>
  C6 as amended, at a batch of one and at the empty batch.
\<close>

theorem Verify_results_exclusive_witness:
  "[example_attestation [''sigstore.dev''] ''tampered''] \<noteq> [] \<and>
   SigstoreResults_exclusive (fst (Verify example_library default_config
     [example_attestation [''sigstore.dev''] ''tampered''] ''policy'')) \<and>
   fst (Verify example_library default_config [] ''policy'') =
     \<lparr>VerifyResults = Some [], Error = None\<rparr>"
  using Verify_results_exclusive [of "[example_attestation [''sigstore.dev''] ''tampered'']"
      example_library default_config "''policy''"]
    Verify_results_exclusive [of "[]" example_library default_config "''policy''"]
  by blast

text \<open>
  Claim C7 fails: a batch that fails at index 0 on issuer \<open>Acme Corp\<close> and a batch that
  fails at index 1 on issuer \<open>Umbrella\<close> return the same error, so the error carries
  neither the index nor, for a failed choice of verifier, the issuer.
\<close>

theorem Verify_error_context_counterexample:
  "Error (fst (Verify example_library default_config
      [example_attestation [''Acme Corp''] ''a''] ''policy'')) =
     Some ''failed to find recognized issuer from bundle content: leaf certificate issuer is not recognized'' \<and>
   Error (fst (Verify example_library default_config
      [example_attestation [''sigstore.dev''] ''a'', example_attestation [''Umbrella''] ''b'']
      ''policy'')) =
     Some ''failed to find recognized issuer from bundle content: leaf certificate issuer is not recognized'' \<and>
   first_failure example_library default_config ''policy''
      [example_attestation [''Acme Corp''] ''a''] = 0 \<and>
   first_failure example_library default_config ''policy''
      [example_attestation [''sigstore.dev''] ''a'', example_attestation [''Umbrella''] ''b''] = 1"
proof -
  have a: "\<not> attestation_passes example_library default_config ''policy''
             (example_attestation [''Acme Corp''] ''a'')"
    and u: "\<not> attestation_passes example_library default_config ''policy''
             (example_attestation [''Umbrella''] ''b'')"
    by (simp_all add: attestation_passes_def example_unrecognized)
  have k0: "first_failure example_library default_config ''policy''
      [example_attestation [''Acme Corp''] ''a''] = 0"
    by (simp add: first_failure_def a)
  have k1: "first_failure example_library default_config ''policy''
      [example_attestation [''sigstore.dev''] ''a'', example_attestation [''Umbrella''] ''b''] = 1"
    by (simp add: first_failure_def u example_passes)
  have f0: "\<not> list_all (attestation_passes example_library default_config ''policy'')
      [example_attestation [''Acme Corp''] ''a'']"
    by (simp add: a)
  have f1: "\<not> list_all (attestation_passes example_library default_config ''policy'')
      [example_attestation [''sigstore.dev''] ''a'', example_attestation [''Umbrella''] ''b'']"
    by (simp add: u)
  show ?thesis
    by (simp add: Verify_fst_fails [OF f0] Verify_fst_fails [OF f1] k0 k1 example_unrecognized)
qed

text \<open>
  Claim C7, amended (error context). The error of a failing batch comes from the first
  failing attestation. When no verifier was chosen for it, the error is
  \<open>failed to find recognized issuer from bundle content: \<close> followed by the message of
  \<open>chooseVerifier\<close>. When the chosen verifier rejected it, the error is
  \<open>verifying with issuer "I": \<close> followed by the message of the verifier, \<open>I\<close> being
  the single organization of the issuer of its leaf certificate. No index is attached.
\<close>

theorem Verify_error_context:
  assumes "\<exists>att \<in> set atts. \<not> attestation_passes L config policy att"
  shows "(\<forall>e. fst (chooseVerifier L config
                   (Bundle (atts ! first_failure L config policy atts))) = Inl e \<longrightarrow>
            Error (fst (Verify L config atts policy)) =
              Some (''failed to find recognized issuer from bundle content: '' @ e)) \<and>
         (\<forall>verifier issuer.
            fst (chooseVerifier L config
                   (Bundle (atts ! first_failure L config policy atts))) = Inr (verifier, issuer) \<longrightarrow>
            spec_IssuerResolver (Bundle (atts ! first_failure L config policy atts)) = Inr issuer \<and>
            (\<exists>e. SignedEntityVerifier_Verify L verifier
                    (Bundle (atts ! first_failure L config policy atts)) policy = Inl e \<and>
                  Error (fst (Verify L config atts policy)) =
                    Some (''verifying with issuer '' @ dq @ issuer @ dq @ '': '' @ e)))"
proof -
  let ?b = "Bundle (atts ! first_failure L config policy atts)"
  from assms have f: "\<not> list_all (attestation_passes L config policy) atts"
    by (simp add: fails_iff)
  note np = first_failure_fails [OF f]
  have 1: "Error (fst (Verify L config atts policy)) =
              Some (''failed to find recognized issuer from bundle content: '' @ e)"
    if "fst (chooseVerifier L config ?b) = Inl e" for e
    using that by (simp add: Verify_fst_fails [OF f])
  have 2: "spec_IssuerResolver ?b = Inr issuer \<and>
            (\<exists>e. SignedEntityVerifier_Verify L verifier ?b policy = Inl e \<and>
                  Error (fst (Verify L config atts policy)) =
                    Some (''verifying with issuer '' @ dq @ issuer @ dq @ '': '' @ e))"
    if cv: "fst (chooseVerifier L config ?b) = Inr (verifier, issuer)" for verifier issuer
  proof -
    from np cv obtain e where e: "SignedEntityVerifier_Verify L verifier ?b policy = Inl e"
      by (cases "SignedEntityVerifier_Verify L verifier ?b policy")
         (auto simp: attestation_passes_iff)
    from cv e have "Error (fst (Verify L config atts policy)) =
                    Some (''verifying with issuer '' @ dq @ issuer @ dq @ '': '' @ e)"
      by (simp add: Verify_fst_fails [OF f])
    with e chooseVerifier_issuer_resolved [OF cv] show ?thesis
      by blast
  qed
  from 1 2 show ?thesis by blast
qed

text \<open>
  C7 as amended, at an input: the second attestation is rejected by the verifier.
\<close>

theorem Verify_error_context_witness:
  "(\<exists>att \<in> set [example_attestation [''sigstore.dev''] ''a'',
                  example_attestation [''sigstore.dev''] ''tampered''].
      \<not> attestation_passes example_library default_config ''policy'' att) \<and>
   Error (fst (Verify example_library default_config
      [example_attestation [''sigstore.dev''] ''a'',
       example_attestation [''sigstore.dev''] ''tampered''] ''policy'')) =
     Some (''verifying with issuer '' @ dq @ ''sigstore.dev'' @ dq @ '': signature mismatch'')"
proof -
  let ?atts = "[example_attestation [''sigstore.dev''] ''a'',
                example_attestation [''sigstore.dev''] ''tampered'']"
  have h: "\<exists>att \<in> set ?atts. \<not> attestation_passes example_library default_config ''policy'' att"
    by (simp add: example_passes)
  have k: "first_failure example_library default_config ''policy'' ?atts = 1"
    by (simp add: first_failure_def example_passes)
  from Verify_error_context [OF h, unfolded k]
  have "\<forall>verifier issuer.
          fst (chooseVerifier example_library default_config (Bundle (?atts ! 1)))
            = Inr (verifier, issuer) \<longrightarrow>
          (\<exists>e. SignedEntityVerifier_Verify example_library verifier (Bundle (?atts ! 1)) ''policy''
                  = Inl e \<and>
                Error (fst (Verify example_library default_config ?atts ''policy'')) =
                  Some (''verifying with issuer '' @ dq @ issuer @ dq @ '': '' @ e))"
    by blast
  then have "Error (fst (Verify example_library default_config ?atts ''policy'')) =
     Some (''verifying with issuer '' @ dq @ ''sigstore.dev'' @ dq @ '': signature mismatch'')"
    by (simp add: example_selected example_verify)
  with h show ?thesis by blast
qed

text \<open>
  Claim C8 fails: for two attestations of issuer \<open>sigstore.dev\<close> the Public Good
  verifier is constructed twice in one call of \<open>Verify\<close>.
\<close>

theorem Verify_materializes_twice_counterexample:
  "materialized (snd (Verify example_library default_config
      [example_attestation [''sigstore.dev''] ''a'', example_attestation [''sigstore.dev''] ''b'']
      ''policy'')) = [PublicGood, PublicGood] \<and>
   \<not> distinct (materialized (snd (Verify example_library default_config
      [example_attestation [''sigstore.dev''] ''a'', example_attestation [''sigstore.dev''] ''b'']
      ''policy'')))"
  by (simp add: Verify_materialized first_failure_def example_passes List.map_filter_simps
      example_selection)

text \<open>
  Claim C8, amended (verifier construction). Within one call of \<open>Verify\<close> a verifier is
  constructed once for each attestation that the loop reaches and that the selection
  rules give a trust domain, in the order of the batch; the loop reaches the
  attestations up to the first failing one. So there are at most as many constructions
  as attestations, and exactly as many when every attestation passes, also when they
  all select the same trust domain.
\<close>

theorem Verify_materializes_per_attestation:
  "materialized (snd (Verify L config atts policy)) =
     List.map_filter (\<lambda>att. spec_selection config (Bundle att))
       (take (Suc (first_failure L config policy atts)) atts) \<and>
   length (materialized (snd (Verify L config atts policy))) \<le> length atts \<and>
   (list_all (attestation_passes L config policy) atts \<longrightarrow>
      length (materialized (snd (Verify L config atts policy))) = length atts)"
proof -
  have le: "length (materialized (snd (Verify L config atts policy))) \<le> length atts"
    unfolding Verify_materialized
    by (rule order_trans [OF length_map_filter_le]) simp
  have eq: "length (materialized (snd (Verify L config atts policy))) = length atts"
    if p: "list_all (attestation_passes L config policy) atts"
  proof -
    from p have k: "first_failure L config policy atts = length atts"
      by (simp add: first_failure_def passes_prefix)
    from p have "list_all (\<lambda>att. \<exists>d. spec_selection config (Bundle att) = Some d) atts"
      by (auto simp: list_all_iff dest: passes_selected)
    from length_map_filter_all [OF this] show ?thesis
      by (simp add: Verify_materialized k)
  qed
  from le eq show ?thesis
    by (simp add: Verify_materialized)
qed

text \<open>
  C8 as amended, at an input: two constructions for a batch of two.
\<close>

theorem Verify_materializes_per_attestation_witness:
  "list_all (attestation_passes example_library default_config ''policy'')
     [example_attestation [''sigstore.dev''] ''a'', example_attestation [''sigstore.dev''] ''b''] \<and>
   length (materialized (snd (Verify example_library default_config
      [example_attestation [''sigstore.dev''] ''a'', example_attestation [''sigstore.dev''] ''b'']
      ''policy''))) = 2"
proof -
  let ?atts = "[example_attestation [''sigstore.dev''] ''a'',
                example_attestation [''sigstore.dev''] ''b'']"
  have h: "list_all (attestation_passes example_library default_config ''policy'') ?atts"
    by (simp add: example_passes)
  from Verify_materializes_per_attestation [of example_library default_config ?atts "''policy''"] h
  have "length (materialized (snd (Verify example_library default_config ?atts ''policy''))) =
          length ?atts"
    by blast
  with h show ?thesis by simp
qed

text \<open>
  Claim C10 (the custom root does not bypass issuer resolution). If the batch holds an
  attestation whose bundle lacks verification content or a certificate, or whose leaf
  certificate issuer does not declare exactly one organization, \<open>Verify\<close> returns an
  error and no result sequence, for every configuration, a custom trusted root
  included; \<open>chooseVerifier\<close> on that bundle constructs no verifier, the custom one
  included.
\<close>

theorem resolution_before_custom_root:
  assumes "att \<in> set atts"
    and "spec_IssuerResolver (Bundle att) = Inl x"
  shows "VerifyResults (fst (Verify L config atts policy)) = None \<and>
         (\<exists>e. Error (fst (Verify L config atts policy)) = Some e) \<and>
         snd (chooseVerifier L config (Bundle att)) = []"
proof -
  from assms unresolved_fails [OF assms(2), of L config policy]
  have f: "\<not> list_all (attestation_passes L config policy) atts"
    by (auto simp: list_all_iff)
  show ?thesis
    by (simp add: Verify_fst_fails [OF f] chooseVerifier_unresolved(1) [OF assms(2)])
qed

text \<open>
  C10 at an input: a custom trusted root and a bundle without certificate.
\<close>

theorem resolution_before_custom_root_witness:
  "no_certificate_attestation \<in>
     set [example_attestation [''sigstore.dev''] ''a'', no_certificate_attestation] \<and>
   spec_IssuerResolver (Bundle no_certificate_attestation) = Inl MalformedBundle \<and>
   CustomTrustedRoot custom_config \<noteq> [] \<and>
   VerifyResults (fst (Verify example_library custom_config
     [example_attestation [''sigstore.dev''] ''a'', no_certificate_attestation] ''policy'')) = None \<and>
   (\<exists>e. Error (fst (Verify example_library custom_config
     [example_attestation [''sigstore.dev''] ''a'', no_certificate_attestation] ''policy''))
       = Some e) \<and>
   snd (chooseVerifier example_library custom_config (Bundle no_certificate_attestation)) = []"
proof -
  have m: "no_certificate_attestation \<in>
     set [example_attestation [''sigstore.dev''] ''a'', no_certificate_attestation]"
    by simp
  have c: "CustomTrustedRoot custom_config \<noteq> []"
    by (simp add: custom_config_def)
  from resolution_before_custom_root [OF m no_certificate_unresolved,
      of example_library custom_config "''policy''"] m c no_certificate_unresolved
  show ?thesis by blast
qed

end
